theory Spec2Isabelle
  imports Main "HOL-Library.AList"
begin

section \<open>Python values\<close>

text \<open>
  The values the library handles are what \<^verbatim>\<open>json.loads\<close> produces and what the
  credential fields hold: \<^verbatim>\<open>None\<close>, booleans, integers, strings, lists and
  dictionaries with string keys. JSON numbers are integers here (the provider's payloads and
  the config file use integers only); floats are not modelled. Strings are lists of code
  points below 256. A dictionary is an association list in insertion order, read with
  \<open>map_of\<close> and written with \<open>AList.update\<close>, which keeps the position of an existing
  key and appends a new one, as a Python dict does.
\<close>

datatype pyval =
    PNone
  | PBool bool
  | PInt int
  | PStr string
  | PList "pyval list"
  | PDict "(string \<times> pyval) list"

type_synonym dict = "(string \<times> pyval) list"

text \<open>\<^verbatim>\<open>d.get(key)\<close>, that is \<^verbatim>\<open>d.get(key, None)\<close>, on a dictionary.\<close>

definition dict_get :: "dict \<Rightarrow> string \<Rightarrow> pyval" where
  "dict_get d k = (case map_of d k of None \<Rightarrow> PNone | Some v \<Rightarrow> v)"

text \<open>\<^verbatim>\<open>d.update(other)\<close>: the items of \<open>other\<close> are stored one by one, in order.\<close>

definition dict_update :: "dict \<Rightarrow> dict \<Rightarrow> dict" where
  "dict_update d other = fold (\<lambda>(k, v). AList.update k v) other d"

text \<open>Truth value testing (\<^verbatim>\<open>not x\<close>, \<^verbatim>\<open>if x:\<close>).\<close>

fun truthy :: "pyval \<Rightarrow> bool" where
  "truthy PNone = False"
| "truthy (PBool b) = b"
| "truthy (PInt i) = (i \<noteq> 0)"
| "truthy (PStr s) = (s \<noteq> [])"
| "truthy (PList xs) = (xs \<noteq> [])"
| "truthy (PDict d) = (d \<noteq> [])"

subsection \<open>Printing values\<close>

text \<open>
  \<^verbatim>\<open>str(x)\<close>, which an f-string and \<^verbatim>\<open>str.format\<close> apply to a value with an
  empty format specification. Inside a list or a dictionary the elements are printed with
  \<^verbatim>\<open>repr\<close>, which quotes and escapes strings.
\<close>

definition digit :: "nat \<Rightarrow> char" where
  "digit n = char_of (of_char CHR ''0'' + n)"

function show_nat :: "nat \<Rightarrow> string" where
  "show_nat n = (if n < 10 then [digit n] else show_nat (n div 10) @ [digit (n mod 10)])"
  by pat_completeness auto
termination
  by (relation "measure id") auto

definition show_int :: "int \<Rightarrow> string" where
  "show_int i = (if i < 0 then CHR ''-'' # show_nat (nat (- i)) else show_nat (nat i))"

definition hex_digit :: "nat \<Rightarrow> char" where
  "hex_digit n = (if n < 10 then digit n else char_of (of_char CHR ''a'' + (n - 10)))"

text \<open>
  \<^verbatim>\<open>repr\<close> of one character of a string quoted with \<open>q\<close>: the quote and the
  backslash are escaped, tab, newline and carriage return have their letter, the other
  characters that are not printable (below the space, 127 to 160, and the soft hyphen 173)
  are written \<^verbatim>\<open>\xhh\<close>.
\<close>

definition repr_char :: "char \<Rightarrow> char \<Rightarrow> string" where
  "repr_char q c =
     (let n = (of_char c :: nat) in
      if c = q \<or> n = 92 then [char_of (92 :: nat), c]
      else if n = 9 then [char_of (92 :: nat), CHR ''t'']
      else if n = 10 then [char_of (92 :: nat), CHR ''n'']
      else if n = 13 then [char_of (92 :: nat), CHR ''r'']
      else if n < 32 \<or> (127 \<le> n \<and> n \<le> 160) \<or> n = 173
        then [char_of (92 :: nat), CHR ''x'', hex_digit (n div 16), hex_digit (n mod 16)]
      else [c])"

text \<open>
  \<^verbatim>\<open>repr\<close> of a string: single quotes, unless the string holds a single quote and no
  double quote.
\<close>

definition repr_str :: "string \<Rightarrow> string" where
  "repr_str s =
     (let sq = char_of (39 :: nat); dq = char_of (34 :: nat);
          q = (if sq \<in> set s \<and> dq \<notin> set s then dq else sq)
      in q # concat (map (repr_char q) s) @ [q])"

definition join :: "string \<Rightarrow> string list \<Rightarrow> string" where
  "join sep xs = (case xs of [] \<Rightarrow> [] | y # ys \<Rightarrow> y @ concat (map (\<lambda>z. sep @ z) ys))"

fun py_repr :: "pyval \<Rightarrow> string" where
  "py_repr PNone = ''None''"
| "py_repr (PBool b) = (if b then ''True'' else ''False'')"
| "py_repr (PInt i) = show_int i"
| "py_repr (PStr s) = repr_str s"
| "py_repr (PList xs) = ''['' @ join '', '' (map py_repr xs) @ '']''"
| "py_repr (PDict d) =
     ''{'' @ join '', '' (map (\<lambda>p. repr_str (fst p) @ '': '' @ py_repr (snd p)) d) @ ''}''"

definition py_str :: "pyval \<Rightarrow> string" where
  "py_str v = (case v of PStr s \<Rightarrow> s | _ \<Rightarrow> py_repr v)"

section \<open>Exceptions, the outside world and effects\<close>

text \<open>
  A response of the HTTP library. \<open>content\<close> is the body as \<^verbatim>\<open>json.loads\<close> reads
  it after the lenient UTF-8 decoding: \<open>Some v\<close> when the text is the JSON text of \<open>v\<close>,
  \<open>None\<close> when it is not JSON (the parser itself belongs to the standard library and is
  not modelled).
\<close>

record response =
  status_code :: int
  reason :: string
  content :: "pyval option"

text \<open>
  The module \<^verbatim>\<open>trakt.errors\<close> is not among the sources. Its exception classes are a
  parameter \<open>errs\<close> of the model: the classes \<^verbatim>\<open>errors.__all__\<close> names, in order,
  each with its name and its \<^verbatim>\<open>http_code\<close>. An exception raised from a class is
  constructed with the response, and keeps it.
\<close>

record error_class =
  cls_name :: string
  http_code :: int

datatype exn =
    KeyError string
  | AttributeError
  | TypeError
  | ValueError
  | FileNotFoundError
  | JSONDecodeError
  | ConnectionError
  | RecursionError
  | TraktError error_class response

text \<open>A file holds JSON text (of a value) or something else.\<close>

datatype file_content = JsonText pyval | NotJson

text \<open>
  A request as the HTTP library prepares it. \<open>rq_params\<close> are the query parameters,
  \<open>rq_data\<close> is the value whose JSON text (\<^verbatim>\<open>json.dumps\<close>) is the body.
\<close>

record http_request =
  rq_method :: string
  rq_url :: string
  rq_headers :: dict
  rq_params :: "pyval option"
  rq_data :: "pyval option"

text \<open>
  Everything the code reads and writes beyond its arguments: the dictionary that a
  \<^verbatim>\<open>TokenAuth\<close> object is (\<open>creds\<close>), the attributes of a \<^verbatim>\<open>DeviceAuth\<close>
  object and of its config (\<open>client_id\<close>, \<open>client_secret\<close>, \<open>config\<close>), the file
  system, the provider's replies still to come (\<open>inbox\<close>, in order), the requests sent
  so far (\<open>outbox\<close>), the clock in microseconds since the epoch, the lines printed and
  the arguments \<^verbatim>\<open>sleep\<close> was called with.
\<close>

record world =
  creds :: dict
  client_id :: pyval
  client_secret :: pyval
  config :: dict
  files :: "string \<Rightarrow> file_content option"
  inbox :: "response list"
  outbox :: "http_request list"
  clock :: int
  stdout :: "string list"
  slept :: "pyval list"

text \<open>A call returns a value or raises an exception; either way it leaves a world.\<close>

datatype 'a outcome = Returns 'a world | Raises exn world

type_synonym 'a py = "world \<Rightarrow> 'a outcome"

fun world_of :: "'a outcome \<Rightarrow> world" where
  "world_of (Returns x w) = w"
| "world_of (Raises e w) = w"

definition ret :: "'a \<Rightarrow> 'a py" where
  "ret x w = Returns x w"

definition raise :: "exn \<Rightarrow> 'a py" where
  "raise e w = Raises e w"

text \<open>Sequencing: an exception of the first statement skips the rest.\<close>

definition bind_py :: "'a py \<Rightarrow> ('a \<Rightarrow> 'b py) \<Rightarrow> 'b py" where
  "bind_py m f w = (case m w of Returns x w' \<Rightarrow> f x w' | Raises e w' \<Rightarrow> Raises e w')"

definition lift :: "exn + 'a \<Rightarrow> 'a py" where
  "lift r w = (case r of Inl e \<Rightarrow> Raises e w | Inr x \<Rightarrow> Returns x w)"

subsection \<open>Operations on values that can raise\<close>

text \<open>
  \<^verbatim>\<open>x.get(key)\<close>: only a dictionary has the method; \<^verbatim>\<open>None\<close>, booleans, numbers,
  strings and lists raise \<^verbatim>\<open>AttributeError\<close>.
\<close>

fun py_get :: "pyval \<Rightarrow> string \<Rightarrow> exn + pyval" where
  "py_get (PDict d) k = Inr (dict_get d k)"
| "py_get v k = Inl AttributeError"

text \<open>
  \<^verbatim>\<open>x[key]\<close> with a string key: a dictionary looks the key up, a string and a list
  want an integer index, the other values are not subscriptable.
\<close>

fun py_getitem :: "pyval \<Rightarrow> string \<Rightarrow> exn + pyval" where
  "py_getitem (PDict d) k = (case map_of d k of None \<Rightarrow> Inl (KeyError k) | Some v \<Rightarrow> Inr v)"
| "py_getitem v k = Inl TypeError"

text \<open>
  \<^verbatim>\<open>x.status_code\<close>, \<^verbatim>\<open>x.reason\<close>, \<^verbatim>\<open>x.json\<close>: none of the types of
  \<open>pyval\<close> (\<^verbatim>\<open>NoneType\<close>, \<^verbatim>\<open>bool\<close>, \<^verbatim>\<open>int\<close>, \<^verbatim>\<open>str\<close>,
  \<^verbatim>\<open>list\<close>, \<^verbatim>\<open>dict\<close>) has an attribute of these names.
\<close>

definition py_getattr :: "pyval \<Rightarrow> string \<Rightarrow> exn + pyval" where
  "py_getattr v name = Inl AttributeError"

text \<open>The integer a value is when it is an \<^verbatim>\<open>int\<close> (a \<^verbatim>\<open>bool\<close> is one).\<close>

fun as_int :: "pyval \<Rightarrow> int option" where
  "as_int (PInt i) = Some i"
| "as_int (PBool b) = Some (if b then 1 else 0)"
| "as_int v = None"

text \<open>
  \<^verbatim>\<open>a + b\<close>: integers are added, strings and lists are concatenated, every other
  pair of operands raises \<^verbatim>\<open>TypeError\<close>.
\<close>

definition py_add :: "pyval \<Rightarrow> pyval \<Rightarrow> exn + pyval" where
  "py_add a b =
     (case (as_int a, as_int b) of
        (Some i, Some j) \<Rightarrow> Inr (PInt (i + j))
      | _ \<Rightarrow>
        (case (a, b) of
           (PStr s, PStr t) \<Rightarrow> Inr (PStr (s @ t))
         | (PList xs, PList ys) \<Rightarrow> Inr (PList (xs @ ys))
         | _ \<Rightarrow> Inl TypeError))"

text \<open>
  \<^verbatim>\<open>a == b\<close> between a value and an integer constant: equal when the value is that
  integer (\<^verbatim>\<open>True == 1\<close> and \<^verbatim>\<open>False == 0\<close> hold).
\<close>

definition py_eq_int :: "pyval \<Rightarrow> int \<Rightarrow> bool" where
  "py_eq_int v n = (as_int v = Some n)"

subsection \<open>Header dictionaries\<close>

text \<open>
  The headers of a prepared request are a dictionary of the HTTP library that compares
  keys without regard to case: a key is found by its lower-case form, and storing under a
  key that is there in another spelling replaces that entry in place (the new spelling is
  kept).
\<close>

definition lower_char :: "char \<Rightarrow> char" where
  "lower_char c =
     (let n = (of_char c :: nat) in
      if (65 \<le> n \<and> n \<le> 90) \<or> (192 \<le> n \<and> n \<le> 222 \<and> n \<noteq> 215)
      then char_of (n + 32) else c)"

definition lower :: "string \<Rightarrow> string" where
  "lower s = map lower_char s"

fun ci_update :: "string \<Rightarrow> pyval \<Rightarrow> dict \<Rightarrow> dict" where
  "ci_update k v [] = [(k, v)]"
| "ci_update k v (p # ps) =
     (if lower (fst p) = lower k then (k, v) # ps else p # ci_update k v ps)"

fun ci_lookup :: "dict \<Rightarrow> string \<Rightarrow> pyval option" where
  "ci_lookup [] k = None"
| "ci_lookup (p # ps) k = (if lower (fst p) = lower k then Some (snd p) else ci_lookup ps k)"

text \<open>\<^verbatim>\<open>headers.update(other)\<close> on such a dictionary.\<close>

definition ci_updates :: "dict \<Rightarrow> dict \<Rightarrow> dict" where
  "ci_updates d other = fold (\<lambda>(k, v). ci_update k v) other d"

section \<open>Transport: \<^verbatim>\<open>HttpClient\<close>\<close>

text \<open>
  An authentication hook is what the HTTP library calls with the prepared request; it
  returns the request to send. The client holds the base URL, the persistent headers and
  the hook installed by \<^verbatim>\<open>set_auth\<close>. Logging is left out.
\<close>

type_synonym hook = "http_request \<Rightarrow> http_request py"

record http_client =
  base_url :: string
  headers :: dict
  auth :: "hook option"

definition set_headers :: "http_client \<Rightarrow> dict \<Rightarrow> http_client" where
  "set_headers c hs = c\<lparr>headers := dict_update (headers c) hs\<rparr>"

definition set_auth :: "http_client \<Rightarrow> hook option \<Rightarrow> http_client" where
  "set_auth c h = c\<lparr>auth := h\<rparr>"

text \<open>
  The network: the request goes out, and the provider's next reply comes back. When no
  reply is left the library raises its connection error.
\<close>

definition send :: "http_request \<Rightarrow> response py" where
  "send r w =
     (case inbox w of
        [] \<Rightarrow> Raises ConnectionError (w\<lparr>outbox := outbox w @ [r]\<rparr>)
      | resp # rest \<Rightarrow> Returns resp (w\<lparr>inbox := rest, outbox := outbox w @ [r]\<rparr>))"

text \<open>
  \<^verbatim>\<open>session.request(method, url, headers=..., auth=..., params=... | data=...)\<close> of
  the HTTP library, by its contract: the request is prepared from the arguments, the hook
  (when there is one) is called once with it, and what the hook returns is sent. An
  exception of the hook leaves the call before anything is sent. The session's own default
  headers are left out.
\<close>

definition session_request ::
  "string \<Rightarrow> string \<Rightarrow> dict \<Rightarrow> hook option \<Rightarrow> pyval option \<Rightarrow> pyval option \<Rightarrow> response py"
where
  "session_request method url hs hk params data =
     (let r = \<lparr>rq_method = method, rq_url = url, rq_headers = ci_updates [] hs,
                rq_params = params, rq_data = data\<rparr>
      in bind_py (case hk of None \<Rightarrow> ret r | Some h \<Rightarrow> h r) send)"

text \<open>
  \<^verbatim>\<open>error_map\<close>: every class but the base class, keyed by its code. The dict
  comprehension keeps the last class of a code.
\<close>

definition error_map :: "error_class list \<Rightarrow> int \<Rightarrow> error_class option" where
  "error_map errs =
     map_of (rev (map (\<lambda>err. (http_code err, err))
                      (filter (\<lambda>err. cls_name err \<noteq> ''TraktException'') errs)))"

definition raise_if_needed :: "error_class list \<Rightarrow> response \<Rightarrow> unit py" where
  "raise_if_needed errs resp =
     (case error_map errs (status_code resp) of
        Some err \<Rightarrow> raise (TraktError err resp)
      | None \<Rightarrow> ret ())"

definition json_loads :: "pyval option \<Rightarrow> exn + pyval" where
  "json_loads body = (case body of None \<Rightarrow> Inl JSONDecodeError | Some v \<Rightarrow> Inr v)"

text \<open>
  The statement of \<^verbatim>\<open>request\<close> that assigns \<^verbatim>\<open>response\<close>: a GET passes the data
  as query parameters, every other method as the JSON body.
\<close>

definition session_call :: "http_client \<Rightarrow> string \<Rightarrow> string \<Rightarrow> pyval \<Rightarrow> response py" where
  "session_call c method url data =
     (let url' = base_url c @ url in
      if method = ''get''
      then session_request method url' (headers c) (auth c) (Some data) None
      else session_request method url' (headers c) (auth c) None (Some data))"

definition request ::
  "error_class list \<Rightarrow> http_client \<Rightarrow> string \<Rightarrow> string \<Rightarrow> pyval \<Rightarrow> pyval py"
where
  "request errs c method url data =
     bind_py (session_call c method url data)
       (\<lambda>resp.
          if status_code resp = 204 then ret PNone
          else bind_py (raise_if_needed errs resp)
                 (\<lambda>_. lift (json_loads (content resp))))"

definition get :: "error_class list \<Rightarrow> http_client \<Rightarrow> string \<Rightarrow> pyval py" where
  "get errs c url = request errs c ''get'' url PNone"

text \<open>\<^verbatim>\<open>delete\<close> has no \<^verbatim>\<open>return\<close>: what the request returns is dropped.\<close>

definition delete :: "error_class list \<Rightarrow> http_client \<Rightarrow> string \<Rightarrow> pyval py" where
  "delete errs c url = bind_py (request errs c ''delete'' url PNone) (\<lambda>_. ret PNone)"

definition post :: "error_class list \<Rightarrow> http_client \<Rightarrow> string \<Rightarrow> pyval \<Rightarrow> pyval py" where
  "post errs c url data = request errs c ''post'' url data"

definition put :: "error_class list \<Rightarrow> http_client \<Rightarrow> string \<Rightarrow> pyval \<Rightarrow> pyval py" where
  "put errs c url data = request errs c ''put'' url data"

section \<open>Credentials and request signing: \<^verbatim>\<open>TokenAuth\<close>\<close>

text \<open>
  A \<^verbatim>\<open>TokenAuth\<close> is a dictionary (the field \<open>creds\<close> of the world) with a client
  and the path of the config file. The constructor fills the dictionary from the fields of
  the \<^verbatim>\<open>AuthConfig\<close> it is given; that class is not among the sources, so which keys
  the dictionary has is left to the initial world.
\<close>

record token_auth =
  client :: http_client
  config_path :: string

definition init_creds :: "dict \<Rightarrow> dict" where
  "init_creds params = dict_update [] params"

text \<open>\<^verbatim>\<open>self[key]\<close> raises \<^verbatim>\<open>KeyError\<close> for a key the dictionary lacks.\<close>

definition getitem :: "string \<Rightarrow> pyval py" where
  "getitem k w =
     (case map_of (creds w) k of None \<Rightarrow> Raises (KeyError k) w | Some v \<Rightarrow> Returns v w)"

definition setitem :: "string \<Rightarrow> pyval \<Rightarrow> unit py" where
  "setitem k v w = Returns () (w\<lparr>creds := AList.update k v (creds w)\<rparr>)"

text \<open>
  \<^verbatim>\<open>store_token(**kwargs)\<close>: the file is opened for writing, which empties it, and
  the keyword arguments are dumped as one JSON object.
\<close>

definition store_token :: "token_auth \<Rightarrow> dict \<Rightarrow> unit py" where
  "store_token self kwargs w =
     Returns () (w\<lparr>files := (files w)(config_path self \<mapsto> JsonText (PDict kwargs))\<rparr>)"

definition path_exists :: "string \<Rightarrow> bool py" where
  "path_exists p w = Returns (files w p \<noteq> None) w"

text \<open>\<^verbatim>\<open>json.load(open(path))\<close>.\<close>

definition read_json :: "string \<Rightarrow> pyval py" where
  "read_json p w =
     (case files w p of
        None \<Rightarrow> Raises FileNotFoundError w
      | Some NotJson \<Rightarrow> Raises JSONDecodeError w
      | Some (JsonText v) \<Rightarrow> Returns v w)"

definition keys :: "string list" where
  "keys = [''APPLICATION_ID'', ''CLIENT_ID'', ''CLIENT_SECRET'',
           ''OAUTH_EXPIRES_AT'', ''OAUTH_REFRESH'', ''OAUTH_TOKEN'']"

text \<open>The loop of \<^verbatim>\<open>load_config\<close> over the keys.\<close>

fun load_keys :: "string list \<Rightarrow> pyval \<Rightarrow> unit py" where
  "load_keys [] config_data = ret ()"
| "load_keys (key # rest) config_data =
     bind_py (getitem key)
       (\<lambda>v. if v \<noteq> PNone then load_keys rest config_data
            else bind_py (lift (py_get config_data key))
                   (\<lambda>x. bind_py (setitem key x) (\<lambda>_. load_keys rest config_data)))"

text \<open>
  The guard of \<^verbatim>\<open>load_config\<close> is \<^verbatim>\<open>(A and B) or not exists\<close>, evaluated from the
  left: the secret is read only when the id is set, the path is looked at only when one of
  them is unset.
\<close>

definition load_config :: "token_auth \<Rightarrow> unit py" where
  "load_config self =
     bind_py (getitem ''CLIENT_ID'')
       (\<lambda>cid. bind_py (if cid \<noteq> PNone
                        then bind_py (getitem ''CLIENT_SECRET'') (\<lambda>sec. ret (sec \<noteq> PNone))
                        else ret False)
          (\<lambda>both. bind_py (if both then ret True
                            else bind_py (path_exists (config_path self)) (\<lambda>ex. ret (\<not> ex)))
             (\<lambda>skip. if skip then ret ()
                      else bind_py (read_json (config_path self)) (load_keys keys))))"

text \<open>
  \<^verbatim>\<open>datetime.fromtimestamp(x, tz=timezone.utc)\<close>, as microseconds since the epoch:
  the argument must be a number, and the time must lie in the years 1 to 9999 (beyond them
  the call raises \<^verbatim>\<open>ValueError\<close>, or for still larger numbers \<^verbatim>\<open>OverflowError\<close> or
  \<^verbatim>\<open>OSError\<close>, all three written \<open>ValueError\<close> here).
\<close>

definition fromtimestamp :: "pyval \<Rightarrow> exn + int" where
  "fromtimestamp v =
     (case as_int v of
        None \<Rightarrow> Inl TypeError
      | Some n \<Rightarrow>
          if n < - 62135596800 \<or> 253402300799 < n then Inl ValueError
          else Inr (n * 1000000))"

text \<open>\<^verbatim>\<open>datetime.now(tz=timezone.utc)\<close>, in microseconds.\<close>

definition now :: "int py" where
  "now w = Returns (clock w) w"

text \<open>
  Whether an exception is an instance of the class of that name. Modelled from the spec:
  the failure kinds are distinct error kinds, so the classes of the table are taken to be
  unrelated by inheritance, and an exception is an instance of its own class only.
\<close>

fun is_instance :: "exn \<Rightarrow> string \<Rightarrow> bool" where
  "is_instance (TraktError cls resp) name = (cls_name cls = name)"
| "is_instance e name = False"

text \<open>
  \<^verbatim>\<open>refresh_token\<close>, in two parts: the statements after the \<^verbatim>\<open>try\<close> block, which
  take the decoded response, and the function itself. The argument of the last
  \<^verbatim>\<open>logger.info\<close> is computed whatever the log level, and \<^verbatim>\<open>fromtimestamp\<close> in it
  can raise; it is the only part of the logging that is kept.
\<close>

definition store_refreshed :: "token_auth \<Rightarrow> pyval \<Rightarrow> unit py" where
  "store_refreshed self resp =
     bind_py (lift (py_get resp ''access_token'')) (\<lambda>v1.
     bind_py (setitem ''OAUTH_TOKEN'' v1) (\<lambda>_.
     bind_py (lift (py_get resp ''refresh_token'')) (\<lambda>v2.
     bind_py (setitem ''OAUTH_REFRESH'' v2) (\<lambda>_.
     bind_py (lift (py_get resp ''created_at'')) (\<lambda>created_at.
     bind_py (lift (py_get resp ''expires_in'')) (\<lambda>expires_in.
     bind_py (lift (py_add created_at expires_in)) (\<lambda>v3.
     bind_py (setitem ''OAUTH_EXPIRES_AT'' v3) (\<lambda>_.
     bind_py (setitem ''OAUTH_TOKEN_VALID'' (PBool True)) (\<lambda>_.
     bind_py (getitem ''OAUTH_EXPIRES_AT'') (\<lambda>e.
     bind_py (lift (fromtimestamp e)) (\<lambda>_.
     bind_py (getitem ''CLIENT_ID'') (\<lambda>a.
     bind_py (getitem ''CLIENT_SECRET'') (\<lambda>b.
     bind_py (getitem ''OAUTH_TOKEN'') (\<lambda>c.
     bind_py (getitem ''OAUTH_REFRESH'') (\<lambda>d.
     bind_py (getitem ''OAUTH_EXPIRES_AT'') (\<lambda>f.
     store_token self
       [(''CLIENT_ID'', a), (''CLIENT_SECRET'', b), (''OAUTH_TOKEN'', c),
        (''OAUTH_REFRESH'', d), (''OAUTH_EXPIRES_AT'', f)]))))))))))))))))"

text \<open>The body of the refresh request, built from four fields of the dictionary.\<close>

definition refresh_data :: "pyval \<Rightarrow> pyval \<Rightarrow> pyval \<Rightarrow> pyval \<Rightarrow> pyval" where
  "refresh_data cid sec rt uri =
     PDict [(''client_id'', cid), (''client_secret'', sec),
            (''refresh_token'', rt), (''redirect_uri'', uri),
            (''grant_type'', PStr ''refresh_token'')]"

text \<open>The refresh request as a client without a hook sends it.\<close>

definition refresh_request :: "http_client \<Rightarrow> pyval \<Rightarrow> pyval \<Rightarrow> pyval \<Rightarrow> pyval \<Rightarrow> http_request" where
  "refresh_request c cid sec rt uri =
     \<lparr>rq_method = ''post'', rq_url = base_url c @ ''/oauth/token'',
      rq_headers = ci_updates [] (headers c),
      rq_params = None, rq_data = Some (refresh_data cid sec rt uri)\<rparr>"

definition refresh_token :: "error_class list \<Rightarrow> token_auth \<Rightarrow> unit py" where
  "refresh_token errs self =
     bind_py (getitem ''CLIENT_ID'') (\<lambda>cid.
     bind_py (getitem ''CLIENT_SECRET'') (\<lambda>sec.
     bind_py (getitem ''OAUTH_REFRESH'') (\<lambda>rt.
     bind_py (getitem ''REDIRECT_URI'') (\<lambda>uri.
       (\<lambda>w.
          case post errs (client self) ''/oauth/token'' (refresh_data cid sec rt uri) w of
            Raises e w' \<Rightarrow>
              if is_instance e ''OAuthException'' then Returns () w' else Raises e w'
          | Returns resp w' \<Rightarrow> store_refreshed self resp w')))))"

text \<open>Two days, the margin of \<^verbatim>\<open>validate_token\<close>, in microseconds.\<close>

definition two_days :: int where
  "two_days = 2 * 86400 * 1000000"

definition validate_token :: "error_class list \<Rightarrow> token_auth \<Rightarrow> unit py" where
  "validate_token errs self =
     bind_py now (\<lambda>current.
     bind_py (getitem ''OAUTH_EXPIRES_AT'') (\<lambda>e.
     bind_py (lift (fromtimestamp e)) (\<lambda>expires_at.
       if expires_at - current > two_days
       then setitem ''OAUTH_TOKEN_VALID'' (PBool True)
       else refresh_token errs self)))"

text \<open>
  The condition of \<^verbatim>\<open>get_token\<close> is a chain of \<^verbatim>\<open>and\<close>: a later key is read only
  when the earlier tests hold.
\<close>

definition needs_validation :: "bool py" where
  "needs_validation =
     bind_py (getitem ''OAUTH_TOKEN_VALID'') (\<lambda>valid.
       if truthy valid then ret False
       else bind_py (getitem ''OAUTH_EXPIRES_AT'') (\<lambda>e.
              if e = PNone then ret False
              else bind_py (getitem ''OAUTH_REFRESH'') (\<lambda>r. ret (r \<noteq> PNone))))"

definition get_token :: "error_class list \<Rightarrow> token_auth \<Rightarrow> (pyval \<times> pyval) py" where
  "get_token errs self =
     bind_py (load_config self) (\<lambda>_.
     bind_py needs_validation (\<lambda>b.
     bind_py (if b then validate_token errs self else ret ()) (\<lambda>_.
     bind_py (getitem ''CLIENT_ID'') (\<lambda>cid.
     bind_py (getitem ''OAUTH_TOKEN'') (\<lambda>tok. ret (cid, tok))))))"

text \<open>\<^verbatim>\<open>__call__\<close>: the hook itself.\<close>

definition token_auth_call :: "error_class list \<Rightarrow> token_auth \<Rightarrow> hook" where
  "token_auth_call errs self r =
     bind_py (get_token errs self) (\<lambda>(client_id, client_token).
       ret (r\<lparr>rq_headers := ci_updates (rq_headers r)
                 [(''trakt-api-key'', client_id),
                  (''Authorization'', PStr (''Bearer '' @ py_str client_token))]\<rparr>))"

text \<open>
  Nothing in the two classes keeps a \<^verbatim>\<open>TokenAuth\<close> from being installed as the hook of
  the very client it holds. Such a client contains itself; it is unfolded here to the depth
  \<open>d\<close>, and at depth 0 the interpreter's recursion limit is reached.
\<close>

fun attached :: "nat \<Rightarrow> error_class list \<Rightarrow> http_client \<Rightarrow> string \<Rightarrow> http_client" where
  "attached 0 errs c path = c\<lparr>auth := Some (\<lambda>r. raise RecursionError)\<rparr>"
| "attached (Suc d) errs c path =
     c\<lparr>auth := Some (token_auth_call errs
                       \<lparr>client = attached d errs c path, config_path = path\<rparr>)\<rparr>"

section \<open>Device authorization: \<^verbatim>\<open>DeviceAuth\<close>\<close>

text \<open>
  A \<^verbatim>\<open>DeviceAuth\<close> has a client, a config and the \<open>store\<close> flag; its attributes
  \<^verbatim>\<open>client_id\<close> and \<^verbatim>\<open>client_secret\<close> and the attributes of its config are fields
  of the world.
\<close>

record device_auth =
  dev_client :: http_client
  dev_config_path :: string
  store :: bool

text \<open>
  Modelled from the spec: the class \<^verbatim>\<open>AuthConfig\<close> of \<^verbatim>\<open>trakt.config\<close> is not among
  the sources. By the spec it is the credential store: its fields are nullable and a lookup
  of an unset field never fails, \<^verbatim>\<open>update\<close> sets the given fields, and
  \<^verbatim>\<open>store\<close> serialises the fields as JSON and overwrites the config file at the
  configured path.
\<close>

definition config_attr :: "string \<Rightarrow> pyval py" where
  "config_attr k w = Returns (dict_get (config w) k) w"

definition config_setattr :: "string \<Rightarrow> pyval \<Rightarrow> unit py" where
  "config_setattr k v w = Returns () (w\<lparr>config := AList.update k v (config w)\<rparr>)"

definition update_config :: "dict \<Rightarrow> unit py" where
  "update_config kwargs w = Returns () (w\<lparr>config := dict_update (config w) kwargs\<rparr>)"

definition config_store :: "device_auth \<Rightarrow> unit py" where
  "config_store self w =
     Returns () (w\<lparr>files := (files w)(dev_config_path self \<mapsto> JsonText (PDict (config w)))\<rparr>)"

text \<open>\<^verbatim>\<open>print(x)\<close> writes \<^verbatim>\<open>str(x)\<close>.\<close>

definition print :: "pyval \<Rightarrow> unit py" where
  "print v w = Returns () (w\<lparr>stdout := stdout w @ [py_str v]\<rparr>)"

text \<open>
  \<^verbatim>\<open>sleep(x)\<close> wants a number that is not negative; the clock moves on by that many
  seconds.
\<close>

definition sleep :: "pyval \<Rightarrow> unit py" where
  "sleep v w =
     (case as_int v of
        None \<Rightarrow> Raises TypeError w
      | Some n \<Rightarrow>
          if n < 0 then Raises ValueError w
          else Returns () (w\<lparr>slept := slept w @ [v], clock := clock w + n * 1000000\<rparr>))"

text \<open>
  \<^verbatim>\<open>x *= 2\<close>: an integer is doubled, a string and a list are repeated, the other
  values raise \<^verbatim>\<open>TypeError\<close>.
\<close>

definition py_double :: "pyval \<Rightarrow> exn + pyval" where
  "py_double v =
     (case as_int v of
        Some i \<Rightarrow> Inr (PInt (i * 2))
      | None \<Rightarrow>
        (case v of
           PStr s \<Rightarrow> Inr (PStr (s @ s))
         | PList xs \<Rightarrow> Inr (PList (xs @ xs))
         | _ \<Rightarrow> Inl TypeError))"

text \<open>Calling a value: none of the values of \<open>pyval\<close> is callable.\<close>

definition py_call :: "pyval \<Rightarrow> exn + pyval" where
  "py_call f = Inl TypeError"

text \<open>
  \<^verbatim>\<open>update_tokens\<close>. The function \<^verbatim>\<open>get_client_info\<close> of \<^verbatim>\<open>trakt.auth\<close> is
  not among the sources; the pair it returns is the parameter \<open>client_info\<close>.
\<close>

definition update_tokens :: "pyval \<times> pyval \<Rightarrow> unit py" where
  "update_tokens client_info w =
     (let w1 = (if client_id w = PNone \<and> client_secret w = PNone
                then w\<lparr>client_id := fst client_info, client_secret := snd client_info\<rparr>
                else w)
      in bind_py (config_setattr ''CLIENT_ID'' (client_id w1))
           (\<lambda>_. config_setattr ''CLIENT_SECRET'' (client_secret w1)) w1)"

text \<open>
  \<^verbatim>\<open>get_device_code\<close>. The code also stores the float \<^verbatim>\<open>time()\<close> under
  \<^verbatim>\<open>'requested'\<close> in the dictionary it returns; no code reads it, and it is left out.
\<close>

definition get_device_code :: "error_class list \<Rightarrow> device_auth \<Rightarrow> pyval py" where
  "get_device_code errs self =
     bind_py (config_attr ''CLIENT_ID'') (\<lambda>cid.
     bind_py (post errs (dev_client self) ''/oauth/device/code'' (PDict [(''client_id'', cid)]))
       (\<lambda>resp.
     bind_py (lift (py_get resp ''user_code'')) (\<lambda>user_code.
     bind_py (lift (py_get resp ''verification_url'')) (\<lambda>verification_url.
     bind_py (print (PStr (''Your user code is: '' @ py_str user_code @
                           '', please navigate to '' @ py_str verification_url @
                           '' to authenticate'')))
       (\<lambda>_. ret resp)))))"

text \<open>
  \<^verbatim>\<open>get_device_token\<close>. What it calls \<^verbatim>\<open>response\<close> is what
  \<^verbatim>\<open>HttpClient.post\<close> returns: the decoded JSON of the reply.
\<close>

definition get_device_token :: "error_class list \<Rightarrow> device_auth \<Rightarrow> pyval \<Rightarrow> bool \<Rightarrow> pyval py"
where
  "get_device_token errs self device_code store_flag =
     bind_py (config_attr ''CLIENT_ID'') (\<lambda>cid.
     bind_py (config_attr ''CLIENT_SECRET'') (\<lambda>sec.
     bind_py (post errs (dev_client self) ''/oauth/device/token''
                (PDict [(''code'', device_code), (''client_id'', cid),
                        (''client_secret'', sec)]))
       (\<lambda>resp.
     bind_py (lift (py_getattr resp ''status_code'')) (\<lambda>sc.
     bind_py
       (if py_eq_int sc 200
        then bind_py (lift (py_getattr resp ''json'')) (\<lambda>m.
             bind_py (lift (py_call m)) (\<lambda>data.
             bind_py (lift (py_get data ''access_token'')) (\<lambda>v1.
             bind_py (lift (py_get data ''refresh_token'')) (\<lambda>v2.
             bind_py (lift (py_get data ''created_at'')) (\<lambda>created_at.
             bind_py (lift (py_get data ''expires_in'')) (\<lambda>expires_in.
             bind_py (lift (py_add created_at expires_in)) (\<lambda>v3.
             bind_py (update_config [(''OAUTH_TOKEN'', v1), (''OAUTH_REFRESH'', v2),
                                     (''OAUTH_EXPIRES_AT'', v3)])
               (\<lambda>_. if store_flag then config_store self else ret ()))))))))
        else ret ())
       (\<lambda>_. ret resp)))))"

definition error_messages :: "(int \<times> string) list" where
  "error_messages =
     [(404, ''Invalid device_code''),
      (409, ''You already approved this code''),
      (410, ''The tokens have expired, restart the process''),
      (418, ''You explicitly denied this code'')]"

text \<open>\<^verbatim>\<open>error_messages.get(code, default)\<close>, the code being any value.\<close>

definition error_message :: "pyval \<Rightarrow> pyval \<Rightarrow> pyval" where
  "error_message code dflt =
     (case as_int code of
        None \<Rightarrow> dflt
      | Some n \<Rightarrow> (case map_of error_messages n of None \<Rightarrow> dflt | Some m \<Rightarrow> PStr m))"

text \<open>
  \<^verbatim>\<open>success_message.format_map(d)\<close>: both fields are looked up with \<^verbatim>\<open>d[...]\<close>.
\<close>

definition success_message :: "pyval \<Rightarrow> exn + pyval" where
  "success_message d =
     (case py_getitem d ''access_token'' of
        Inl e \<Rightarrow> Inl e
      | Inr a \<Rightarrow>
        (case py_getitem d ''refresh_token'' of
           Inl e \<Rightarrow> Inl e
         | Inr r \<Rightarrow>
             Inr (PStr (''You'' @ [CHR 0x27] @ ''ve been successfully authenticated. '' @
                        ''With access_token '' @ py_str a @
                        '' and refresh_token '' @ py_str r))))"

text \<open>
  One turn of the loop of \<^verbatim>\<open>authenticate\<close>: the response, and the interval to go on
  with after the sleep, or \<open>None\<close> after a \<^verbatim>\<open>break\<close>.
\<close>

definition poll_step ::
  "error_class list \<Rightarrow> device_auth \<Rightarrow> pyval \<Rightarrow> pyval \<Rightarrow> (pyval \<times> pyval option) py"
where
  "poll_step errs self device_code interval =
     bind_py (get_device_token errs self device_code (store self)) (\<lambda>resp.
     bind_py (lift (py_getattr resp ''status_code'')) (\<lambda>sc.
       if py_eq_int sc 200
       then bind_py (lift (py_getattr resp ''json'')) (\<lambda>m.
            bind_py (lift (py_call m)) (\<lambda>data.
            bind_py (lift (success_message data)) (\<lambda>msg.
            bind_py (print msg) (\<lambda>_. ret (resp, None)))))
       else if py_eq_int sc 429
       then bind_py (lift (py_double interval)) (\<lambda>interval'.
            bind_py (sleep interval') (\<lambda>_. ret (resp, Some interval')))
       else if \<not> py_eq_int sc 400
       then bind_py (lift (py_getattr resp ''reason'')) (\<lambda>why.
            bind_py (print (error_message sc why)) (\<lambda>_. ret (resp, None)))
       else bind_py (sleep interval) (\<lambda>_. ret (resp, Some interval))))"

text \<open>
  The loop \<^verbatim>\<open>while True\<close>, which the code leaves only by \<^verbatim>\<open>break\<close> or by an
  exception. The first argument bounds the number of turns; \<open>None\<close> says that the loop
  has not ended within the bound.
\<close>

fun poll ::
  "nat \<Rightarrow> error_class list \<Rightarrow> device_auth \<Rightarrow> pyval \<Rightarrow> pyval \<Rightarrow> world \<Rightarrow> pyval outcome option"
where
  "poll 0 errs self device_code interval w = None"
| "poll (Suc n) errs self device_code interval w =
     (case poll_step errs self device_code interval w of
        Raises e w' \<Rightarrow> Some (Raises e w')
      | Returns (resp, None) w' \<Rightarrow> Some (Returns resp w')
      | Returns (resp, Some interval') w' \<Rightarrow> poll n errs self device_code interval' w')"

definition authenticate ::
  "nat \<Rightarrow> error_class list \<Rightarrow> device_auth \<Rightarrow> pyval \<times> pyval \<Rightarrow> world \<Rightarrow> pyval outcome option"
where
  "authenticate n errs self client_info w =
     (case bind_py (update_tokens client_info) (\<lambda>_.
           bind_py (get_device_code errs self) (\<lambda>resp.
           bind_py (lift (py_getitem resp ''device_code'')) (\<lambda>device_code.
           bind_py (lift (py_getitem resp ''interval'')) (\<lambda>interval.
             ret (device_code, interval))))) w of
        Raises e w' \<Rightarrow> Some (Raises e w')
      | Returns (device_code, interval) w' \<Rightarrow> poll n errs self device_code interval w')"

section \<open>Reading outcomes, and inputs for the examples\<close>

text \<open>The value a call returned, if it returned.\<close>

definition returned :: "'a outcome \<Rightarrow> 'a option" where
  "returned r = (case r of Returns x w \<Rightarrow> Some x | Raises e w \<Rightarrow> None)"

text \<open>
  An error table for the examples, with the codes the provider documents, and a client
  without a hook.
\<close>

definition errs0 :: "error_class list" where
  "errs0 =
     [\<lparr>cls_name = ''TraktException'', http_code = 0\<rparr>,
      \<lparr>cls_name = ''BadRequestException'', http_code = 400\<rparr>,
      \<lparr>cls_name = ''OAuthException'', http_code = 401\<rparr>,
      \<lparr>cls_name = ''NotFoundException'', http_code = 404\<rparr>,
      \<lparr>cls_name = ''RateLimitException'', http_code = 429\<rparr>]"

definition client0 :: http_client where
  "client0 = \<lparr>base_url = ''https://api.trakt.tv'',
               headers = [(''Content-Type'', PStr ''application/json'')],
               auth = None\<rparr>"

definition self0 :: token_auth where
  "self0 = \<lparr>client = client0, config_path = ''cfg.json''\<rparr>"

text \<open>A client that signs its requests with \<open>self0\<close>, which refreshes through \<open>client0\<close>.\<close>

definition client1 :: http_client where
  "client1 = client0\<lparr>auth := Some (token_auth_call errs0 self0)\<rparr>"

definition dev0 :: device_auth where
  "dev0 = \<lparr>dev_client = client0, dev_config_path = ''cfg.json'', store = True\<rparr>"

definition reply :: "int \<Rightarrow> pyval option \<Rightarrow> response" where
  "reply code body = \<lparr>status_code = code, reason = [], content = body\<rparr>"

text \<open>A world with the given credentials, config file, replies to come and clock.\<close>

definition world0 :: "dict \<Rightarrow> file_content option \<Rightarrow> response list \<Rightarrow> int \<Rightarrow> world" where
  "world0 cr f rs t =
     \<lparr>creds = cr, client_id = PNone, client_secret = PNone, config = [],
      files = (\<lambda>p. if p = ''cfg.json'' then f else None),
      inbox = rs, outbox = [], clock = t, stdout = [], slept = []\<rparr>"

definition creds0 :: "pyval \<Rightarrow> pyval \<Rightarrow> pyval \<Rightarrow> pyval \<Rightarrow> dict" where
  "creds0 tok refr expires valid =
     [(''APPLICATION_ID'', PNone), (''CLIENT_ID'', PStr ''id''),
      (''CLIENT_SECRET'', PStr ''secret''), (''OAUTH_EXPIRES_AT'', expires),
      (''OAUTH_REFRESH'', refr), (''OAUTH_TOKEN'', tok),
      (''OAUTH_TOKEN_VALID'', valid),
      (''REDIRECT_URI'', PStr ''urn:ietf:wg:oauth:2.0:oob'')]"

definition unset_creds :: dict where
  "unset_creds =
     [(''APPLICATION_ID'', PNone), (''CLIENT_ID'', PNone), (''CLIENT_SECRET'', PNone),
      (''OAUTH_EXPIRES_AT'', PNone), (''OAUTH_REFRESH'', PNone), (''OAUTH_TOKEN'', PNone),
      (''OAUTH_TOKEN_VALID'', PNone)]"

definition token_payload :: pyval where
  "token_payload =
     PDict [(''access_token'', PStr ''tok2''), (''token_type'', PStr ''bearer''),
            (''expires_in'', PInt 7776000), (''refresh_token'', PStr ''ref2''),
            (''scope'', PStr ''public''), (''created_at'', PInt 1519329051)]"

definition code_payload :: pyval where
  "code_payload =
     PDict [(''device_code'', PStr ''abc''), (''user_code'', PStr ''5055CC52''),
            (''verification_url'', PStr ''https://trakt.tv/activate''),
            (''expires_in'', PInt 600), (''interval'', PInt 5)]"

definition partial_creds :: dict where
  "partial_creds =
     [(''APPLICATION_ID'', PNone), (''CLIENT_ID'', PNone),
      (''CLIENT_SECRET'', PStr ''live-secret''), (''OAUTH_EXPIRES_AT'', PNone),
      (''OAUTH_REFRESH'', PNone), (''OAUTH_TOKEN'', PStr ''live''),
      (''OAUTH_TOKEN_VALID'', PNone)]"

definition disk_config :: dict where
  "disk_config =
     [(''CLIENT_ID'', PStr ''disk-id''), (''CLIENT_SECRET'', PStr ''disk-secret''),
      (''OAUTH_TOKEN'', PStr ''disk'')]"

definition stored_fields :: dict where
  "stored_fields =
     [(''CLIENT_ID'', PStr ''id''), (''CLIENT_SECRET'', PStr ''secret''),
      (''OAUTH_TOKEN'', PStr ''tok''), (''OAUTH_REFRESH'', PStr ''ref''),
      (''OAUTH_EXPIRES_AT'', PInt 1527105051)]"

definition plain_request :: http_request where
  "plain_request =
     \<lparr>rq_method = ''get'', rq_url = ''https://api.trakt.tv/users/me'',
      rq_headers = [(''authorization'', PStr ''stale'')],
      rq_params = Some PNone, rq_data = None\<rparr>"

definition device_requests :: "http_request list" where
  "device_requests =
     [\<lparr>rq_method = ''post'', rq_url = ''https://api.trakt.tv/oauth/device/code'',
       rq_headers = [(''Content-Type'', PStr ''application/json'')],
       rq_params = None, rq_data = Some (PDict [(''client_id'', PStr ''id'')])\<rparr>,
      \<lparr>rq_method = ''post'', rq_url = ''https://api.trakt.tv/oauth/device/token'',
       rq_headers = [(''Content-Type'', PStr ''application/json'')],
       rq_params = None,
       rq_data = Some (PDict [(''code'', PStr ''abc''), (''client_id'', PStr ''id''),
                              (''client_secret'', PStr ''secret'')])\<rparr>]"

definition world_after_first_poll :: world where
  "world_after_first_poll =
     (world0 [] None [] 0)
       \<lparr>client_id := PStr ''id'', client_secret := PStr ''secret'',
        config := [(''CLIENT_ID'', PStr ''id''), (''CLIENT_SECRET'', PStr ''secret'')],
        outbox := device_requests,
        stdout := [''Your user code is: 5055CC52, please navigate to '' @
                   ''https://trakt.tv/activate to authenticate'']\<rparr>"

text \<open>
  An authenticator attached to the client it holds, and a world in which its token expires
  one hour after the clock.
\<close>

definition attached_self :: "nat \<Rightarrow> token_auth" where
  "attached_self d =
     \<lparr>client = attached d errs0 client0 ''cfg.json'', config_path = ''cfg.json''\<rparr>"

definition stale_world :: world where
  "stale_world =
     world0 (creds0 (PStr ''tok'') (PStr ''ref'') (PInt 1700003600) PNone) None
       [reply 200 (Some token_payload)] 1700000000000000"

section \<open>Basic facts\<close>

lemma bind_py_Returns: "m w = Returns x w' \<Longrightarrow> bind_py m f w = f x w'"
  by (simp add: bind_py_def)

lemma bind_py_Raises: "m w = Raises e w' \<Longrightarrow> bind_py m f w = Raises e w'"
  by (simp add: bind_py_def)

lemma error_map_SomeD:
  "error_map errs code = Some err \<Longrightarrow>
     err \<in> set errs \<and> http_code err = code \<and> cls_name err \<noteq> ''TraktException''"
  unfolding error_map_def by (auto dest!: map_of_SomeD)

lemma request_on_response:
  assumes "session_call c method url data w = Returns resp w'"
  shows "request errs c method url data w =
           (if status_code resp = 204 then Returns PNone w'
            else case error_map errs (status_code resp) of
                   Some err \<Rightarrow> Raises (TraktError err resp) w'
                 | None \<Rightarrow> (case content resp of
                              None \<Rightarrow> Raises JSONDecodeError w'
                            | Some v \<Rightarrow> Returns v w'))"
  using assms
  by (simp add: request_def bind_py_def raise_if_needed_def ret_def raise_def lift_def
      json_loads_def split: option.splits)

lemma request_on_failure:
  assumes "session_call c method url data w = Raises e w'"
  shows "request errs c method url data w = Raises e w'"
  using assms by (simp add: request_def bind_py_def)

lemma session_call_plain:
  assumes "auth c = None"
  shows "session_call c method url data w =
           send \<lparr>rq_method = method, rq_url = base_url c @ url,
                 rq_headers = ci_updates [] (headers c),
                 rq_params = (if method = ''get'' then Some data else None),
                 rq_data = (if method = ''get'' then None else Some data)\<rparr> w"
  using assms by (simp add: session_call_def session_request_def Let_def bind_py_def ret_def)

lemma session_call_client0:
  "session_call client0 method url data (world0 cr f (resp # rs) t) =
     Returns resp
       ((world0 cr f rs t)
          \<lparr>outbox := [\<lparr>rq_method = method, rq_url = ''https://api.trakt.tv'' @ url,
                 rq_headers = [(''Content-Type'', PStr ''application/json'')],
                 rq_params = (if method = ''get'' then Some data else None),
                 rq_data = (if method = ''get'' then None else Some data)\<rparr>]\<rparr>)"
  by (simp add: session_call_plain client0_def send_def world0_def ci_updates_def)

lemma error_map_errs0:
  "error_map errs0 400 = Some \<lparr>cls_name = ''BadRequestException'', http_code = 400\<rparr>"
  "error_map errs0 401 = Some \<lparr>cls_name = ''OAuthException'', http_code = 401\<rparr>"
  "error_map errs0 404 = Some \<lparr>cls_name = ''NotFoundException'', http_code = 404\<rparr>"
  "error_map errs0 429 = Some \<lparr>cls_name = ''RateLimitException'', http_code = 429\<rparr>"
  "error_map errs0 200 = None"
  "error_map errs0 204 = None"
  by (simp_all add: error_map_def errs0_def)

lemma reply_sel:
  "status_code (reply code body) = code" "content (reply code body) = body"
  by (simp_all add: reply_def)

section \<open>Transport\<close>

text \<open>
  Claim C4. When a response arrives whose status code is in the failure table, the call
  of \<open>request\<close> raises the exception of the class the table maps that code to, built
  with the response itself, so that the caller can inspect it; the class is one of the
  module's classes and carries that code. The status 204 is decided before the table is
  read (the spec's ``any other status''), so the response is one with another status.
\<close>

theorem request_raises_mapped_error:
  assumes "session_call c method url data w = Returns resp w'"
    and "status_code resp \<noteq> 204"
    and "error_map errs (status_code resp) = Some err"
  shows "request errs c method url data w = Raises (TraktError err resp) w' \<and>
         http_code err = status_code resp \<and> err \<in> set errs"
  using assms error_map_SomeD [of errs "status_code resp" err]
  by (simp add: request_on_response)

theorem request_raises_mapped_error_witness:
  "request errs0 client0 ''get'' ''/shows/1'' PNone
     (world0 [] None [reply 404 (Some (PDict []))] 0) =
   Raises (TraktError \<lparr>cls_name = ''NotFoundException'', http_code = 404\<rparr>
             (reply 404 (Some (PDict []))))
     ((world0 [] None [] 0)
        \<lparr>outbox := [\<lparr>rq_method = ''get'', rq_url = ''https://api.trakt.tv/shows/1'',
               rq_headers = [(''Content-Type'', PStr ''application/json'')],
               rq_params = Some PNone, rq_data = None\<rparr>]\<rparr>)"
  using request_raises_mapped_error
    [of client0 "''get''" "''/shows/1''" PNone "world0 [] None [reply 404 (Some (PDict []))] 0"
        "reply 404 (Some (PDict []))" _ errs0 "\<lparr>cls_name = ''NotFoundException'', http_code = 404\<rparr>"]
  by (simp add: session_call_client0 error_map_errs0 reply_sel)

text \<open>
  Claim C5, as amended. For a response with status 204 the call returns \<^verbatim>\<open>None\<close>
  without reading the body. A response with another status that the call returns from
  yields its decoded body; that value is the 204 result exactly when the body is the JSON
  text \<^verbatim>\<open>null\<close>, and differs from it for every other payload, the empty object
  included.
\<close>

theorem no_content_result:
  assumes "session_call c method url data w = Returns resp w'"
    and "status_code resp = 204"
    and "session_call c2 method2 url2 data2 w2 = Returns resp2 w2'"
    and "status_code resp2 \<noteq> 204"
    and "request errs c2 method2 url2 data2 w2 = Returns v w2''"
  shows "request errs c method url data w = Returns PNone w' \<and>
         content resp2 = Some v \<and> (v = PNone \<longleftrightarrow> content resp2 = Some PNone)"
  using assms
  by (auto simp add: request_on_response split: option.splits)

theorem no_content_result_witness:
  "request errs0 client0 ''get'' ''/a'' PNone (world0 [] None [reply 204 None] 0) =
     Returns PNone
       ((world0 [] None [] 0)
          \<lparr>outbox := [\<lparr>rq_method = ''get'', rq_url = ''https://api.trakt.tv/a'',
               rq_headers = [(''Content-Type'', PStr ''application/json'')],
               rq_params = Some PNone, rq_data = None\<rparr>]\<rparr>) \<and>
   content (reply 200 (Some (PDict []))) = Some (PDict []) \<and>
   (PDict [] = PNone \<longleftrightarrow> content (reply 200 (Some (PDict []))) = Some PNone)"
proof -
  let ?w = "\<lambda>r. world0 [] None [r] 0"
  have a: "session_call client0 ''get'' ''/a'' PNone (?w (reply 204 None)) =
      Returns (reply 204 None) ((world0 [] None [] 0)
          \<lparr>outbox := [\<lparr>rq_method = ''get'', rq_url = ''https://api.trakt.tv/a'',
               rq_headers = [(''Content-Type'', PStr ''application/json'')],
               rq_params = Some PNone, rq_data = None\<rparr>]\<rparr>)"
    by (simp add: session_call_client0)
  have b: "session_call client0 ''get'' ''/a'' PNone (?w (reply 200 (Some (PDict [])))) =
      Returns (reply 200 (Some (PDict []))) ((world0 [] None [] 0)
          \<lparr>outbox := [\<lparr>rq_method = ''get'', rq_url = ''https://api.trakt.tv/a'',
               rq_headers = [(''Content-Type'', PStr ''application/json'')],
               rq_params = Some PNone, rq_data = None\<rparr>]\<rparr>)"
    by (simp add: session_call_client0)
  have c: "request errs0 client0 ''get'' ''/a'' PNone (?w (reply 200 (Some (PDict [])))) =
      Returns (PDict []) ((world0 [] None [] 0)
          \<lparr>outbox := [\<lparr>rq_method = ''get'', rq_url = ''https://api.trakt.tv/a'',
               rq_headers = [(''Content-Type'', PStr ''application/json'')],
               rq_params = Some PNone, rq_data = None\<rparr>]\<rparr>)"
    by (simp add: request_on_response [OF b] error_map_errs0 reply_sel)
  show ?thesis
    using no_content_result [OF a _ b _ c] by (simp add: reply_sel)
qed

text \<open>
  The claim as stated fails: the result for a 204 response and the result for a 200
  response with the body \<^verbatim>\<open>null\<close> are the same value.
\<close>

theorem no_content_same_as_null_counterexample:
  "returned (request errs0 client0 ''get'' ''/a'' PNone
               (world0 [] None [reply 204 None] 0)) = Some PNone \<and>
   returned (request errs0 client0 ''get'' ''/a'' PNone
               (world0 [] None [reply 200 (Some PNone)] 0)) = Some PNone"
  by (simp add: request_on_response [OF session_call_client0] error_map_errs0 reply_sel
      returned_def)


lemma delete_returns_only_none:
  "returned (delete errs c url w) = None \<or> returned (delete errs c url w) = Some PNone"
  by (simp add: delete_def bind_py_def ret_def returned_def split: outcome.splits)

text \<open>
  Claim C9. \<open>delete\<close> returns \<^verbatim>\<open>None\<close> whenever it returns: for a 204 response, and
  for a response outside the failure table whose body decodes, whatever the body holds. A
  status of the failure table (other than 204) still raises the exception of its class, and
  a body that is not JSON still raises the decoding error.
\<close>

theorem delete_discards_payload:
  assumes "session_call c ''delete'' url PNone w = Returns resp w'"
  shows "delete errs c url w =
           (if status_code resp = 204 then Returns PNone w'
            else case error_map errs (status_code resp) of
                   Some err \<Rightarrow> Raises (TraktError err resp) w'
                 | None \<Rightarrow> (case content resp of
                              None \<Rightarrow> Raises JSONDecodeError w'
                            | Some v \<Rightarrow> Returns PNone w')) \<and>
         (returned (delete errs c url w) = None \<or>
          returned (delete errs c url w) = Some PNone)"
  using assms delete_returns_only_none [of errs c url w]
  by (simp add: delete_def bind_py_def ret_def request_on_response split: option.splits)

theorem delete_discards_payload_witness:
  "delete errs0 client0 ''/sync/1'' (world0 [] None [reply 200 (Some (PDict [(''deleted'', PInt 1)]))] 0) =
     Returns PNone
       ((world0 [] None [] 0)
          \<lparr>outbox := [\<lparr>rq_method = ''delete'', rq_url = ''https://api.trakt.tv/sync/1'',
               rq_headers = [(''Content-Type'', PStr ''application/json'')],
               rq_params = None, rq_data = Some PNone\<rparr>]\<rparr>) \<and>
   delete errs0 client0 ''/sync/1'' (world0 [] None [reply 404 (Some (PDict []))] 0) =
     Raises (TraktError \<lparr>cls_name = ''NotFoundException'', http_code = 404\<rparr>
               (reply 404 (Some (PDict []))))
       ((world0 [] None [] 0)
          \<lparr>outbox := [\<lparr>rq_method = ''delete'', rq_url = ''https://api.trakt.tv/sync/1'',
               rq_headers = [(''Content-Type'', PStr ''application/json'')],
               rq_params = None, rq_data = Some PNone\<rparr>]\<rparr>)"
proof -
  have a: "session_call client0 ''delete'' ''/sync/1'' PNone
             (world0 [] None [reply 200 (Some (PDict [(''deleted'', PInt 1)]))] 0) =
           Returns (reply 200 (Some (PDict [(''deleted'', PInt 1)])))
             ((world0 [] None [] 0)
                \<lparr>outbox := [\<lparr>rq_method = ''delete'', rq_url = ''https://api.trakt.tv/sync/1'',
                     rq_headers = [(''Content-Type'', PStr ''application/json'')],
                     rq_params = None, rq_data = Some PNone\<rparr>]\<rparr>)"
    by (simp add: session_call_client0)
  have b: "session_call client0 ''delete'' ''/sync/1'' PNone
             (world0 [] None [reply 404 (Some (PDict []))] 0) =
           Returns (reply 404 (Some (PDict [])))
             ((world0 [] None [] 0)
                \<lparr>outbox := [\<lparr>rq_method = ''delete'', rq_url = ''https://api.trakt.tv/sync/1'',
                     rq_headers = [(''Content-Type'', PStr ''application/json'')],
                     rq_params = None, rq_data = Some PNone\<rparr>]\<rparr>)"
    by (simp add: session_call_client0)
  show ?thesis
    using delete_discards_payload [OF a, of errs0] delete_discards_payload [OF b, of errs0]
    by (simp add: error_map_errs0 reply_sel)
qed

section \<open>Credential store\<close>

lemma getitem_simps:
  "map_of (creds w) k = Some v \<Longrightarrow> getitem k w = Returns v w"
  "map_of (creds w) k = None \<Longrightarrow> getitem k w = Raises (KeyError k) w"
  by (simp_all add: getitem_def)

lemma world_of_getitem: "world_of (getitem k w) = w"
  by (simp add: getitem_def split: option.splits)

lemma load_keys_keeps:
  "map_of (creds w) k = Some v \<Longrightarrow> v \<noteq> PNone \<Longrightarrow>
     map_of (creds (world_of (load_keys ks cd w))) k = Some v"
proof (induction ks arbitrary: w)
  case Nil
  then show ?case by (simp add: ret_def)
next
  case (Cons key rest)
  show ?case
  proof (cases "map_of (creds w) key")
    case None
    then show ?thesis using Cons.prems by (simp add: bind_py_def getitem_def)
  next
    case (Some x)
    show ?thesis
    proof (cases "x = PNone")
      case False
      then show ?thesis
        using Some Cons.IH [OF Cons.prems] by (simp add: bind_py_def getitem_def)
    next
      case True
      with Some Cons.prems have neq: "key \<noteq> k" by auto
      show ?thesis
      proof (cases "py_get cd key")
        case (Inl e)
        then show ?thesis
          using Some True Cons.prems by (simp add: bind_py_def getitem_def lift_def)
      next
        case (Inr y)
        let ?w = "w\<lparr>creds := AList.update key y (creds w)\<rparr>"
        have "map_of (creds ?w) k = Some v"
          using neq Cons.prems by (simp add: update_conv')
        from Cons.IH [OF this Cons.prems(2)] show ?thesis
          using Some True Inr by (simp add: bind_py_def getitem_def lift_def setitem_def)
      qed
    qed
  qed
qed

lemma load_keys_frame: "(world_of (load_keys ks cd w))\<lparr>creds := creds w\<rparr> = w"
proof (induction ks arbitrary: w)
  case Nil
  then show ?case by (simp add: ret_def)
next
  case (Cons key rest)
  show ?case
  proof (cases "map_of (creds w) key")
    case None
    then show ?thesis by (simp add: bind_py_def getitem_def)
  next
    case (Some x)
    show ?thesis
    proof (cases "x = PNone")
      case False
      then show ?thesis using Some Cons.IH [of w] by (simp add: bind_py_def getitem_def)
    next
      case True
      show ?thesis
      proof (cases "py_get cd key")
        case (Inl e)
        then show ?thesis using Some True by (simp add: bind_py_def getitem_def lift_def)
      next
        case (Inr y)
        from Cons.IH [of "w\<lparr>creds := AList.update key y (creds w)\<rparr>"]
        have "(world_of (load_keys rest cd (w\<lparr>creds := AList.update key y (creds w)\<rparr>)))
                \<lparr>creds := creds w\<rparr> = w"
          by (auto dest: arg_cong [where f = "\<lambda>z. z\<lparr>creds := creds w\<rparr>"])
        then show ?thesis
          using Some True Inr by (simp add: bind_py_def getitem_def lift_def setitem_def)
      qed
    qed
  qed
qed

lemma load_keys_dict:
  assumes "\<forall>k \<in> set ks. map_of (creds w) k \<noteq> None"
  shows "\<exists>w'. load_keys ks (PDict d) w = Returns () w' \<and>
           (\<forall>k. map_of (creds w') k =
                  (if k \<in> set ks \<and> map_of (creds w) k = Some PNone
                   then Some (dict_get d k) else map_of (creds w) k))"
  using assms
proof (induction ks arbitrary: w)
  case Nil
  then show ?case by (simp add: ret_def)
next
  case (Cons key rest)
  from Cons.prems obtain x where x: "map_of (creds w) key = Some x" by auto
  show ?case
  proof (cases "x = PNone")
    case False
    from Cons.prems have "\<forall>k \<in> set rest. map_of (creds w) k \<noteq> None" by simp
    from Cons.IH [OF this] obtain w' where
      w': "load_keys rest (PDict d) w = Returns () w'"
        "\<forall>k. map_of (creds w') k =
               (if k \<in> set rest \<and> map_of (creds w) k = Some PNone
                then Some (dict_get d k) else map_of (creds w) k)"
      by blast
    have "load_keys (key # rest) (PDict d) w = Returns () w'"
      using x False w'(1) by (simp add: bind_py_def getitem_def)
    moreover have "\<forall>k. map_of (creds w') k =
               (if k \<in> set (key # rest) \<and> map_of (creds w) k = Some PNone
                then Some (dict_get d k) else map_of (creds w) k)"
      using w'(2) x False by auto
    ultimately show ?thesis by blast
  next
    case True
    let ?w = "w\<lparr>creds := AList.update key (dict_get d key) (creds w)\<rparr>"
    from Cons.prems have "\<forall>k \<in> set rest. map_of (creds ?w) k \<noteq> None"
      by (simp add: update_conv')
    from Cons.IH [OF this] obtain w' where
      w': "load_keys rest (PDict d) ?w = Returns () w'"
        "\<forall>k. map_of (creds w') k =
               (if k \<in> set rest \<and> map_of (creds ?w) k = Some PNone
                then Some (dict_get d k) else map_of (creds ?w) k)"
      by blast
    have "load_keys (key # rest) (PDict d) w = Returns () w'"
      using x True w'(1) by (simp add: bind_py_def getitem_def lift_def setitem_def)
    moreover have "\<forall>k. map_of (creds w') k =
               (if k \<in> set (key # rest) \<and> map_of (creds w) k = Some PNone
                then Some (dict_get d k) else map_of (creds w) k)"
      using w'(2) x True by (auto simp add: update_conv')
    ultimately show ?thesis by blast
  qed
qed

lemma load_config_keeps:
  "map_of (creds w) k = Some v \<Longrightarrow> v \<noteq> PNone \<Longrightarrow>
     map_of (creds (world_of (load_config self w))) k = Some v"
  using load_keys_keeps [of w k v keys]
  by (auto simp add: load_config_def bind_py_def getitem_def ret_def path_exists_def
      read_json_def split: option.splits file_content.splits)

lemma load_config_frame: "(world_of (load_config self w))\<lparr>creds := creds w\<rparr> = w"
  using load_keys_frame [where ks = keys and w = w]
  by (auto simp add: load_config_def bind_py_def getitem_def ret_def path_exists_def
      read_json_def split: option.splits file_content.splits)

lemma load_config_noop:
  assumes "map_of (creds w) ''CLIENT_ID'' = Some a" and "map_of (creds w) ''CLIENT_SECRET'' = Some b"
    and "(a \<noteq> PNone \<and> b \<noteq> PNone) \<or> files w (config_path self) = None"
  shows "load_config self w = Returns () w"
  using assms
  by (auto simp add: load_config_def bind_py_def getitem_def ret_def path_exists_def)

lemma load_config_reads:
  assumes "map_of (creds w) ''CLIENT_ID'' = Some a" and "map_of (creds w) ''CLIENT_SECRET'' = Some b"
    and "a = PNone \<or> b = PNone"
    and "files w (config_path self) = Some (JsonText cd)"
  shows "load_config self w = load_keys keys cd w"
  using assms
  by (auto simp add: load_config_def bind_py_def getitem_def ret_def path_exists_def
      read_json_def)

text \<open>
  Claim C6. Whatever \<open>load_config\<close> does, and however it ends, a field that holds a
  value other than \<^verbatim>\<open>None\<close> before the call holds the same value after it, and
  nothing but the credentials changes. The call changes nothing at all when the client id
  and the client secret are both set, or when there is no file at the config path. When it
  does read a file that holds a JSON object, each of the six keys that is \<^verbatim>\<open>None\<close>
  takes the file's value (\<^verbatim>\<open>None\<close> when the file lacks it) and every other field
  stays as it is.
\<close>

theorem load_config_fills_only_unset:
  "(\<forall>k v. map_of (creds w) k = Some v \<and> v \<noteq> PNone \<longrightarrow>
           map_of (creds (world_of (load_config self w))) k = Some v) \<and>
   (world_of (load_config self w))\<lparr>creds := creds w\<rparr> = w \<and>
   (\<forall>a b. map_of (creds w) ''CLIENT_ID'' = Some a \<and> map_of (creds w) ''CLIENT_SECRET'' = Some b \<and>
          ((a \<noteq> PNone \<and> b \<noteq> PNone) \<or> files w (config_path self) = None) \<longrightarrow>
          load_config self w = Returns () w) \<and>
   (\<forall>d. (map_of (creds w) ''CLIENT_ID'' = Some PNone \<or>
         map_of (creds w) ''CLIENT_SECRET'' = Some PNone) \<and>
        (\<forall>k \<in> set keys. map_of (creds w) k \<noteq> None) \<and>
        files w (config_path self) = Some (JsonText (PDict d)) \<longrightarrow>
        (\<exists>w'. load_config self w = Returns () w' \<and>
              (\<forall>k. map_of (creds w') k =
                     (if k \<in> set keys \<and> map_of (creds w) k = Some PNone
                      then Some (dict_get d k) else map_of (creds w) k))))"
proof (intro conjI allI impI)
  fix k v
  assume "map_of (creds w) k = Some v \<and> v \<noteq> PNone"
  then show "map_of (creds (world_of (load_config self w))) k = Some v"
    by (simp add: load_config_keeps)
next
  show "(world_of (load_config self w))\<lparr>creds := creds w\<rparr> = w"
    by (rule load_config_frame)
next
  fix a b
  assume "map_of (creds w) ''CLIENT_ID'' = Some a \<and> map_of (creds w) ''CLIENT_SECRET'' = Some b \<and>
          ((a \<noteq> PNone \<and> b \<noteq> PNone) \<or> files w (config_path self) = None)"
  then show "load_config self w = Returns () w"
    using load_config_noop [of w a b self] by blast
next
  fix d
  assume h: "(map_of (creds w) ''CLIENT_ID'' = Some PNone \<or>
         map_of (creds w) ''CLIENT_SECRET'' = Some PNone) \<and>
        (\<forall>k \<in> set keys. map_of (creds w) k \<noteq> None) \<and>
        files w (config_path self) = Some (JsonText (PDict d))"
  then obtain a b where ab: "map_of (creds w) ''CLIENT_ID'' = Some a"
    "map_of (creds w) ''CLIENT_SECRET'' = Some b"
    by (auto simp add: keys_def)
  with h have "a = PNone \<or> b = PNone" by auto
  with ab h have "load_config self w = load_keys keys (PDict d) w"
    using load_config_reads [of w a b self "PDict d"] by blast
  then show "\<exists>w'. load_config self w = Returns () w' \<and>
              (\<forall>k. map_of (creds w') k =
                     (if k \<in> set keys \<and> map_of (creds w) k = Some PNone
                      then Some (dict_get d k) else map_of (creds w) k))"
    using load_keys_dict [of keys w d] h by simp
qed

theorem load_config_fills_only_unset_witness:
  "map_of (creds (world_of (load_config self0
      (world0 partial_creds (Some (JsonText (PDict disk_config))) [] 0)))) ''OAUTH_TOKEN'' =
     Some (PStr ''live'') \<and>
   map_of (creds (world_of (load_config self0
      (world0 partial_creds (Some (JsonText (PDict disk_config))) [] 0)))) ''CLIENT_ID'' =
     Some (PStr ''disk-id'') \<and>
   load_config self0
      (world0 (creds0 PNone PNone PNone PNone) (Some (JsonText (PDict disk_config))) [] 0) =
     Returns () (world0 (creds0 PNone PNone PNone PNone) (Some (JsonText (PDict disk_config))) [] 0) \<and>
   load_config self0 (world0 partial_creds None [] 0) =
     Returns () (world0 partial_creds None [] 0)"
proof -
  let ?w = "world0 partial_creds (Some (JsonText (PDict disk_config))) [] 0"
  have cr: "creds ?w = partial_creds" by (simp add: world0_def)
  note t = load_config_fills_only_unset [of ?w self0]
  have 1: "map_of (creds (world_of (load_config self0 ?w))) ''OAUTH_TOKEN'' = Some (PStr ''live'')"
    using t [THEN conjunct1, rule_format, of "''OAUTH_TOKEN''" "PStr ''live''"]
    by (simp add: world0_def partial_creds_def)
  have "\<exists>w'. load_config self0 ?w = Returns () w' \<and>
              (\<forall>k. map_of (creds w') k =
                     (if k \<in> set keys \<and> map_of (creds ?w) k = Some PNone
                      then Some (dict_get disk_config k) else map_of (creds ?w) k))"
    using t [THEN conjunct2, THEN conjunct2, THEN conjunct2, rule_format, of disk_config]
    by (simp add: world0_def partial_creds_def keys_def self0_def)
  then have 2: "map_of (creds (world_of (load_config self0 ?w))) ''CLIENT_ID'' = Some (PStr ''disk-id'')"
    by (auto simp add: world0_def partial_creds_def keys_def disk_config_def dict_get_def)
  let ?v = "world0 (creds0 PNone PNone PNone PNone) (Some (JsonText (PDict disk_config))) [] 0"
  have 3: "load_config self0 ?v = Returns () ?v"
    using load_config_fills_only_unset [of ?v self0, THEN conjunct2, THEN conjunct2, THEN conjunct1,
        rule_format, of "PStr ''id''" "PStr ''secret''"]
    by (simp add: world0_def creds0_def)
  let ?u = "world0 partial_creds None [] 0"
  have 4: "load_config self0 ?u = Returns () ?u"
    using load_config_fills_only_unset [of ?u self0, THEN conjunct2, THEN conjunct2, THEN conjunct1,
        rule_format, of PNone "PStr ''live-secret''"]
    by (simp add: world0_def partial_creds_def self0_def)
  from 1 2 3 4 show ?thesis by simp
qed

section \<open>Round trip\<close>

text \<open>
  Claim C7, as amended. \<open>store_token\<close> replaces the content of the config file by the
  given fields, whatever the file held. A \<open>load_config\<close> that follows on a store whose
  six loadable fields are all unset gives each of these six fields the value stored for it
  (\<^verbatim>\<open>None\<close> when the field was not among the stored ones); a field that is not one
  of the six keys of \<open>load_config\<close> is written to the file but is not read back.
\<close>

theorem store_then_load_round_trip:
  assumes "\<forall>k \<in> set keys. map_of (creds w) k = Some PNone"
  shows "store_token self kwargs w =
           Returns () (w\<lparr>files := (files w)(config_path self \<mapsto> JsonText (PDict kwargs))\<rparr>) \<and>
         (\<exists>w'. bind_py (store_token self kwargs) (\<lambda>_. load_config self) w = Returns () w' \<and>
            (\<forall>k \<in> set keys. map_of (creds w') k = Some (dict_get kwargs k)) \<and>
            (\<forall>k. k \<notin> set keys \<longrightarrow> map_of (creds w') k = map_of (creds w) k) \<and>
            files w' = (files w)(config_path self \<mapsto> JsonText (PDict kwargs)))"
proof
  show "store_token self kwargs w =
           Returns () (w\<lparr>files := (files w)(config_path self \<mapsto> JsonText (PDict kwargs))\<rparr>)"
    by (simp add: store_token_def)
next
  let ?w1 = "w\<lparr>files := (files w)(config_path self \<mapsto> JsonText (PDict kwargs))\<rparr>"
  have st: "store_token self kwargs w = Returns () ?w1" by (simp add: store_token_def)
  have cid: "map_of (creds ?w1) ''CLIENT_ID'' = Some PNone"
    and sec: "map_of (creds ?w1) ''CLIENT_SECRET'' = Some PNone"
    using assms by (simp_all add: keys_def)
  have rd: "load_config self ?w1 = load_keys keys (PDict kwargs) ?w1"
    using load_config_reads [OF cid sec, of self "PDict kwargs"] by simp
  have "\<forall>k \<in> set keys. map_of (creds ?w1) k \<noteq> None" using assms by simp
  from load_keys_dict [OF this, of kwargs] obtain w' where
    w': "load_keys keys (PDict kwargs) ?w1 = Returns () w'"
      "\<forall>k. map_of (creds w') k =
             (if k \<in> set keys \<and> map_of (creds ?w1) k = Some PNone
              then Some (dict_get kwargs k) else map_of (creds ?w1) k)"
    by blast
  have "w'\<lparr>creds := creds ?w1\<rparr> = ?w1"
    using load_keys_frame [where ks = keys and cd = "PDict kwargs" and w = ?w1] w'(1) by simp
  then have "files (w'\<lparr>creds := creds ?w1\<rparr>) = files ?w1" by (rule arg_cong)
  then have fl: "files w' = (files w)(config_path self \<mapsto> JsonText (PDict kwargs))" by simp
  have "bind_py (store_token self kwargs) (\<lambda>_. load_config self) w = Returns () w'"
    using st rd w'(1) by (simp add: bind_py_def)
  moreover have "\<forall>k \<in> set keys. map_of (creds w') k = Some (dict_get kwargs k)"
    using w'(2) assms by simp
  moreover have "\<forall>k. k \<notin> set keys \<longrightarrow> map_of (creds w') k = map_of (creds w) k"
    using w'(2) by simp
  ultimately show "\<exists>w'. bind_py (store_token self kwargs) (\<lambda>_. load_config self) w = Returns () w' \<and>
            (\<forall>k \<in> set keys. map_of (creds w') k = Some (dict_get kwargs k)) \<and>
            (\<forall>k. k \<notin> set keys \<longrightarrow> map_of (creds w') k = map_of (creds w) k) \<and>
            files w' = (files w)(config_path self \<mapsto> JsonText (PDict kwargs))"
    using fl by blast
qed

theorem store_then_load_round_trip_witness:
  "map_of (creds (world_of (bind_py (store_token self0 stored_fields) (\<lambda>_. load_config self0)
      (world0 unset_creds (Some (JsonText (PDict [(''APPLICATION_ID'', PStr ''old'')]))) [] 0))))
      ''OAUTH_TOKEN'' = Some (PStr ''tok'') \<and>
   map_of (creds (world_of (bind_py (store_token self0 stored_fields) (\<lambda>_. load_config self0)
      (world0 unset_creds (Some (JsonText (PDict [(''APPLICATION_ID'', PStr ''old'')]))) [] 0))))
      ''APPLICATION_ID'' = Some PNone \<and>
   files (world_of (bind_py (store_token self0 stored_fields) (\<lambda>_. load_config self0)
      (world0 unset_creds (Some (JsonText (PDict [(''APPLICATION_ID'', PStr ''old'')]))) [] 0)))
      ''cfg.json'' = Some (JsonText (PDict stored_fields))"
proof -
  let ?w = "world0 unset_creds (Some (JsonText (PDict [(''APPLICATION_ID'', PStr ''old'')]))) [] 0"
  have "\<forall>k \<in> set keys. map_of (creds ?w) k = Some PNone"
    by (simp add: keys_def world0_def unset_creds_def)
  from store_then_load_round_trip [OF this, of self0 stored_fields]
  obtain w' where
    w': "bind_py (store_token self0 stored_fields) (\<lambda>_. load_config self0) ?w = Returns () w'"
      "\<forall>k \<in> set keys. map_of (creds w') k = Some (dict_get stored_fields k)"
      "files w' = (files ?w)(config_path self0 \<mapsto> JsonText (PDict stored_fields))"
    by blast
  from w'(2) have "map_of (creds w') ''OAUTH_TOKEN'' = Some (PStr ''tok'')"
    "map_of (creds w') ''APPLICATION_ID'' = Some PNone"
    by (simp_all add: keys_def stored_fields_def dict_get_def)
  with w'(1,3) show ?thesis by (simp add: self0_def)
qed

text \<open>
  The claim as stated fails for a field outside the six keys: \<^verbatim>\<open>OAUTH_TOKEN_VALID\<close>
  stored as \<^verbatim>\<open>True\<close> is still unset after the load.
\<close>

theorem store_then_load_counterexample:
  "dict_get [(''OAUTH_TOKEN_VALID'', PBool True)] ''OAUTH_TOKEN_VALID'' = PBool True \<and>
   map_of (creds (world_of (bind_py (store_token self0 [(''OAUTH_TOKEN_VALID'', PBool True)])
      (\<lambda>_. load_config self0) (world0 unset_creds None [] 0)))) ''OAUTH_TOKEN_VALID'' =
     Some PNone"
  by (simp add: bind_py_def store_token_def load_config_def getitem_def ret_def
      path_exists_def read_json_def keys_def lift_def setitem_def dict_get_def world0_def
      unset_creds_def self0_def)

section \<open>Request signing\<close>

lemma ci_lookup_ci_update:
  "ci_lookup (ci_update k v d) k' = (if lower k' = lower k then Some v else ci_lookup d k')"
  by (induction d) auto

lemma world_of_request:
  "world_of (request errs c method url data w) = world_of (session_call c method url data w)"
  by (simp add: request_def bind_py_def raise_if_needed_def ret_def raise_def lift_def
      json_loads_def split: outcome.splits option.splits)

lemma session_call_hooked:
  assumes "auth c = Some h"
  shows "session_call c method url data =
           bind_py (h \<lparr>rq_method = method, rq_url = base_url c @ url,
                        rq_headers = ci_updates [] (headers c),
                        rq_params = (if method = ''get'' then Some data else None),
                        rq_data = (if method = ''get'' then None else Some data)\<rparr>) send"
  using assms by (simp add: session_call_def session_request_def Let_def)

lemma outbox_send: "outbox (world_of (send r w)) = outbox w @ [r]"
  by (simp add: send_def split: list.splits)

lemma token_auth_call_Returns:
  assumes "get_token errs self w = Returns (cid, tok) w1"
  shows "token_auth_call errs self r w =
           Returns (r\<lparr>rq_headers := ci_update ''Authorization'' (PStr (''Bearer '' @ py_str tok))
                        (ci_update ''trakt-api-key'' cid (rq_headers r))\<rparr>) w1"
  using assms by (simp add: token_auth_call_def bind_py_def ret_def ci_updates_def)

lemma token_auth_call_Raises:
  assumes "get_token errs self w = Raises e w1"
  shows "token_auth_call errs self r w = Raises e w1"
  using assms by (simp add: token_auth_call_def bind_py_def)

lemma lower_header_names:
  "lower ''trakt-api-key'' \<noteq> lower ''Authorization''"
  by (simp add: lower_def lower_char_def)

text \<open>
  Claim C8. A client whose hook is the token authenticator calls the hook once while the
  request is prepared, before anything is sent. When the hook's \<open>get_token\<close> returns the
  client id and the token, exactly one request is then sent for the call (whatever else
  \<open>get_token\<close> sent before it, for a refresh, is in \<open>outbox w1\<close>): the request of the
  call, with the header \<^verbatim>\<open>trakt-api-key\<close> set to the client id, the header
  \<^verbatim>\<open>Authorization\<close> set to \<^verbatim>\<open>Bearer\<close> and the token, and every other header as
  the caller set it. When \<open>get_token\<close> raises, the call raises the same exception and
  the request is not sent.
\<close>

theorem signed_request_headers:
  assumes "auth c = Some (token_auth_call errs self)"
  shows "(\<forall>cid tok w1. get_token errs self w = Returns (cid, tok) w1 \<longrightarrow>
            (\<exists>r. outbox (world_of (request errs c method url data w)) = outbox w1 @ [r] \<and>
                 rq_method r = method \<and> rq_url r = base_url c @ url \<and>
                 ci_lookup (rq_headers r) ''trakt-api-key'' = Some cid \<and>
                 ci_lookup (rq_headers r) ''Authorization'' =
                   Some (PStr (''Bearer '' @ py_str tok)) \<and>
                 (\<forall>k. lower k \<noteq> lower ''trakt-api-key'' \<and> lower k \<noteq> lower ''Authorization'' \<longrightarrow>
                      ci_lookup (rq_headers r) k = ci_lookup (ci_updates [] (headers c)) k))) \<and>
         (\<forall>e w1. get_token errs self w = Raises e w1 \<longrightarrow>
            request errs c method url data w = Raises e w1)"
proof (intro conjI allI impI)
  fix cid tok w1
  assume g: "get_token errs self w = Returns (cid, tok) w1"
  let ?plain = "\<lparr>rq_method = method, rq_url = base_url c @ url,
              rq_headers = ci_updates [] (headers c),
              rq_params = (if method = ''get'' then Some data else None),
              rq_data = (if method = ''get'' then None else Some data)\<rparr>"
  let ?signed = "?plain\<lparr>rq_headers := ci_update ''Authorization'' (PStr (''Bearer '' @ py_str tok))
                        (ci_update ''trakt-api-key'' cid (rq_headers ?plain))\<rparr>"
  have h: "token_auth_call errs self ?plain w = Returns ?signed w1"
    using token_auth_call_Returns [OF g, where r = ?plain] by simp
  have "session_call c method url data w = send ?signed w1"
    by (simp only: session_call_hooked [OF assms] bind_py_def h outcome.case)
  then have "outbox (world_of (request errs c method url data w)) = outbox w1 @ [?signed]"
    by (simp add: world_of_request outbox_send)
  moreover have "ci_lookup (rq_headers ?signed) ''trakt-api-key'' = Some cid"
    using lower_header_names by (simp add: ci_lookup_ci_update)
  moreover have "ci_lookup (rq_headers ?signed) ''Authorization'' = Some (PStr (''Bearer '' @ py_str tok))"
    by (simp add: ci_lookup_ci_update)
  moreover have "\<forall>k. lower k \<noteq> lower ''trakt-api-key'' \<and> lower k \<noteq> lower ''Authorization'' \<longrightarrow>
                      ci_lookup (rq_headers ?signed) k = ci_lookup (ci_updates [] (headers c)) k"
    by (simp add: ci_lookup_ci_update)
  moreover have "rq_method ?signed = method" "rq_url ?signed = base_url c @ url" by simp_all
  ultimately show "\<exists>r. outbox (world_of (request errs c method url data w)) = outbox w1 @ [r] \<and>
                 rq_method r = method \<and> rq_url r = base_url c @ url \<and>
                 ci_lookup (rq_headers r) ''trakt-api-key'' = Some cid \<and>
                 ci_lookup (rq_headers r) ''Authorization'' =
                   Some (PStr (''Bearer '' @ py_str tok)) \<and>
                 (\<forall>k. lower k \<noteq> lower ''trakt-api-key'' \<and> lower k \<noteq> lower ''Authorization'' \<longrightarrow>
                      ci_lookup (rq_headers r) k = ci_lookup (ci_updates [] (headers c)) k)"
    by blast
next
  fix e w1
  assume g: "get_token errs self w = Raises e w1"
  show "request errs c method url data w = Raises e w1"
    by (simp only: request_def session_call_hooked [OF assms] bind_py_def
        token_auth_call_Raises [OF g] outcome.case)
qed

lemma needs_validation_False:
  assumes "map_of (creds w) ''OAUTH_TOKEN_VALID'' = Some v"
    and "truthy v \<or> map_of (creds w) ''OAUTH_EXPIRES_AT'' = Some PNone \<or>
         (\<exists>e. map_of (creds w) ''OAUTH_EXPIRES_AT'' = Some e \<and>
              map_of (creds w) ''OAUTH_REFRESH'' = Some PNone)"
  shows "needs_validation w = Returns False w"
  using assms by (auto simp add: needs_validation_def bind_py_def getitem_def ret_def)

lemma needs_validation_True:
  assumes "map_of (creds w) ''OAUTH_TOKEN_VALID'' = Some v" and "\<not> truthy v"
    and "map_of (creds w) ''OAUTH_EXPIRES_AT'' = Some e" and "e \<noteq> PNone"
    and "map_of (creds w) ''OAUTH_REFRESH'' = Some rf" and "rf \<noteq> PNone"
  shows "needs_validation w = Returns True w"
  using assms by (simp add: needs_validation_def bind_py_def getitem_def ret_def)

lemma get_token_no_refresh:
  assumes "load_config self w = Returns () w1"
    and "map_of (creds w1) ''OAUTH_TOKEN_VALID'' = Some v"
    and "truthy v \<or> map_of (creds w1) ''OAUTH_EXPIRES_AT'' = Some PNone \<or>
         (\<exists>e. map_of (creds w1) ''OAUTH_EXPIRES_AT'' = Some e \<and>
              map_of (creds w1) ''OAUTH_REFRESH'' = Some PNone)"
    and "map_of (creds w1) ''CLIENT_ID'' = Some cid"
    and "map_of (creds w1) ''OAUTH_TOKEN'' = Some tok"
  shows "get_token errs self w = Returns (cid, tok) w1"
  using assms(1,4,5) needs_validation_False [OF assms(2,3)]
  by (simp add: get_token_def bind_py_def getitem_def ret_def)

text \<open>
  Claim C10. Take a request that is signed when, after the load step, the token is
  \<^verbatim>\<open>None\<close> and there is no refresh path: the token is marked valid, or the expiry is
  \<^verbatim>\<open>None\<close>, or the refresh token is \<^verbatim>\<open>None\<close>. The hook does not raise and does
  not leave the header out: it returns the request with the header \<^verbatim>\<open>Authorization\<close>
  set to the text \<^verbatim>\<open>Bearer None\<close>, and leaves the world as the load step left it. The
  fields that are read hold \<^verbatim>\<open>None\<close>, and reading them does not raise.
\<close>

theorem unset_token_is_sent_as_bearer_none:
  assumes "load_config self w = Returns () w1"
    and "map_of (creds w1) ''OAUTH_TOKEN_VALID'' = Some v"
    and "truthy v \<or> map_of (creds w1) ''OAUTH_EXPIRES_AT'' = Some PNone \<or>
         (\<exists>e. map_of (creds w1) ''OAUTH_EXPIRES_AT'' = Some e \<and>
              map_of (creds w1) ''OAUTH_REFRESH'' = Some PNone)"
    and "map_of (creds w1) ''CLIENT_ID'' = Some cid"
    and "map_of (creds w1) ''OAUTH_TOKEN'' = Some PNone"
  shows "\<exists>r'. token_auth_call errs self r w = Returns r' w1 \<and>
              ci_lookup (rq_headers r') ''Authorization'' = Some (PStr ''Bearer None'') \<and>
              ci_lookup (rq_headers r') ''trakt-api-key'' = Some cid"
proof -
  have "get_token errs self w = Returns (cid, PNone) w1"
    using assms by (rule get_token_no_refresh)
  from token_auth_call_Returns [OF this, of r]
  show ?thesis
    using lower_header_names by (simp add: ci_lookup_ci_update py_str_def)
qed

theorem unset_token_is_sent_as_bearer_none_witness:
  "map_option (\<lambda>r. ci_lookup (rq_headers r) ''Authorization'')
     (returned (token_auth_call errs0 self0 plain_request
                  (world0 (creds0 PNone PNone PNone PNone) None [] 0))) =
   Some (Some (PStr ''Bearer None''))"
proof -
  let ?w = "world0 (creds0 PNone PNone PNone PNone) None [] 0"
  have l: "load_config self0 ?w = Returns () ?w"
    by (rule load_config_noop [of _ "PStr ''id''" "PStr ''secret''"])
       (simp_all add: world0_def creds0_def)
  have "\<exists>r'. token_auth_call errs0 self0 plain_request ?w = Returns r' ?w \<and>
              ci_lookup (rq_headers r') ''Authorization'' = Some (PStr ''Bearer None'') \<and>
              ci_lookup (rq_headers r') ''trakt-api-key'' = Some (PStr ''id'')"
    by (rule unset_token_is_sent_as_bearer_none [OF l, of PNone])
       (simp_all add: world0_def creds0_def)
  then show ?thesis by (auto simp add: returned_def)
qed

theorem signed_request_headers_witness:
  "map (\<lambda>r. (rq_url r, ci_lookup (rq_headers r) ''trakt-api-key'',
               ci_lookup (rq_headers r) ''Authorization''))
     (outbox (world_of (request errs0 client1 ''get'' ''/users/me'' PNone
        (world0 (creds0 (PStr ''tok'') PNone PNone (PBool True)) None
           [reply 200 (Some (PDict []))] 0)))) =
   [(''https://api.trakt.tv/users/me'', Some (PStr ''id''), Some (PStr ''Bearer tok''))]"
proof -
  let ?w = "world0 (creds0 (PStr ''tok'') PNone PNone (PBool True)) None
              [reply 200 (Some (PDict []))] 0"
  have l: "load_config self0 ?w = Returns () ?w"
    by (rule load_config_noop [of _ "PStr ''id''" "PStr ''secret''"])
       (simp_all add: world0_def creds0_def)
  have g: "get_token errs0 self0 ?w = Returns (PStr ''id'', PStr ''tok'') ?w"
    by (rule get_token_no_refresh [OF l, of "PBool True"])
       (simp_all add: world0_def creds0_def)
  have a: "auth client1 = Some (token_auth_call errs0 self0)"
    by (simp add: client1_def)
  from signed_request_headers [OF a, of ?w "''get''" "''/users/me''" PNone,
      THEN conjunct1, rule_format, OF g]
  obtain r where
    r: "outbox (world_of (request errs0 client1 ''get'' ''/users/me'' PNone ?w)) = outbox ?w @ [r]"
      "rq_url r = base_url client1 @ ''/users/me''"
      "ci_lookup (rq_headers r) ''trakt-api-key'' = Some (PStr ''id'')"
      "ci_lookup (rq_headers r) ''Authorization'' = Some (PStr (''Bearer '' @ py_str (PStr ''tok'')))"
    by blast
  have "outbox ?w = []" by (simp add: world0_def)
  with r show ?thesis by (simp add: client1_def client0_def py_str_def)
qed

section \<open>Token refresh\<close>

lemma keeps_outbox_bind:
  assumes "\<And>w. outbox (world_of (m w)) = outbox w"
    and "\<And>x w. outbox (world_of (f x w)) = outbox w"
  shows "outbox (world_of (bind_py m f w)) = outbox w"
proof (cases "m w")
  case (Returns x w')
  then show ?thesis using assms(1) [of w] assms(2) [of x w'] by (simp add: bind_py_def)
next
  case (Raises e w')
  then show ?thesis using assms(1) [of w] by (simp add: bind_py_def)
qed

lemma keeps_outbox_atoms:
  "outbox (world_of (lift r w)) = outbox w"
  "outbox (world_of (getitem k w)) = outbox w"
  "outbox (world_of (setitem k v w)) = outbox w"
  "outbox (world_of (store_token self kwargs w)) = outbox w"
  "outbox (world_of (ret x w)) = outbox w"
  by (simp_all add: lift_def getitem_def setitem_def store_token_def ret_def
      split: sum.splits option.splits)

lemma outbox_store_refreshed: "outbox (world_of (store_refreshed self resp w)) = outbox w"
  unfolding store_refreshed_def
  by (intro keeps_outbox_bind keeps_outbox_atoms)

lemma store_refreshed_ok:
  assumes "dict_get d ''created_at'' = PInt ca" and "dict_get d ''expires_in'' = PInt ei"
    and "- 62135596800 \<le> ca + ei" and "ca + ei \<le> 253402300799"
    and "map_of (creds w) ''CLIENT_ID'' = Some cid"
    and "map_of (creds w) ''CLIENT_SECRET'' = Some sec"
  shows "store_refreshed self (PDict d) w =
           Returns ()
             (w\<lparr>creds :=
                  AList.update ''OAUTH_TOKEN_VALID'' (PBool True)
                   (AList.update ''OAUTH_EXPIRES_AT'' (PInt (ca + ei))
                     (AList.update ''OAUTH_REFRESH'' (dict_get d ''refresh_token'')
                       (AList.update ''OAUTH_TOKEN'' (dict_get d ''access_token'') (creds w)))),
                files := (files w)(config_path self \<mapsto>
                  JsonText (PDict [(''CLIENT_ID'', cid), (''CLIENT_SECRET'', sec),
                    (''OAUTH_TOKEN'', dict_get d ''access_token''),
                    (''OAUTH_REFRESH'', dict_get d ''refresh_token''),
                    (''OAUTH_EXPIRES_AT'', PInt (ca + ei))]))\<rparr>)"
  using assms
  by (simp add: store_refreshed_def bind_py_def lift_def setitem_def getitem_def py_add_def
      fromtimestamp_def store_token_def update_conv')

lemma refresh_token_unfold:
  assumes "map_of (creds w) ''CLIENT_ID'' = Some cid"
    and "map_of (creds w) ''CLIENT_SECRET'' = Some sec"
    and "map_of (creds w) ''OAUTH_REFRESH'' = Some rt"
    and "map_of (creds w) ''REDIRECT_URI'' = Some uri"
  shows "refresh_token errs self w =
           (case post errs (client self) ''/oauth/token'' (refresh_data cid sec rt uri) w of
              Raises e w' \<Rightarrow>
                if is_instance e ''OAuthException'' then Returns () w' else Raises e w'
            | Returns resp w' \<Rightarrow> store_refreshed self resp w')"
  using assms by (simp add: refresh_token_def bind_py_def getitem_def)

text \<open>
  Claim C2. Take a refresh attempt (the dictionary has the four fields the request is
  built from). When the call of \<^verbatim>\<open>post\<close> returns a successful refresh response, that
  is a JSON object whose \<^verbatim>\<open>created_at\<close> and \<^verbatim>\<open>expires_in\<close> are integers that add
  up to a time a \<^verbatim>\<open>datetime\<close> can hold, then \<open>refresh_token\<close> returns with the token,
  the refresh token and the expiry (\<^verbatim>\<open>created_at + expires_in\<close>) all replaced by the
  response's values, the token marked valid, and the config file overwritten with the
  client id, the client secret and the three new values. When \<^verbatim>\<open>post\<close> raises the
  exception of the class \<^verbatim>\<open>OAuthException\<close>, \<open>refresh_token\<close> returns normally and
  leaves the world as the call left it: no field is changed, nothing is written, nothing
  is raised.
\<close>

theorem refresh_token_outcomes:
  assumes "map_of (creds w) ''CLIENT_ID'' = Some cid"
    and "map_of (creds w) ''CLIENT_SECRET'' = Some sec"
    and "map_of (creds w) ''OAUTH_REFRESH'' = Some rt"
    and "map_of (creds w) ''REDIRECT_URI'' = Some uri"
  shows "(\<forall>d ca ei w'.
            post errs (client self) ''/oauth/token'' (refresh_data cid sec rt uri) w =
              Returns (PDict d) w' \<and>
            creds w' = creds w \<and>
            dict_get d ''created_at'' = PInt ca \<and> dict_get d ''expires_in'' = PInt ei \<and>
            - 62135596800 \<le> ca + ei \<and> ca + ei \<le> 253402300799 \<longrightarrow>
            refresh_token errs self w =
              Returns ()
                (w'\<lparr>creds :=
                     AList.update ''OAUTH_TOKEN_VALID'' (PBool True)
                      (AList.update ''OAUTH_EXPIRES_AT'' (PInt (ca + ei))
                        (AList.update ''OAUTH_REFRESH'' (dict_get d ''refresh_token'')
                          (AList.update ''OAUTH_TOKEN'' (dict_get d ''access_token'')
                            (creds w)))),
                   files := (files w')(config_path self \<mapsto>
                     JsonText (PDict [(''CLIENT_ID'', cid), (''CLIENT_SECRET'', sec),
                       (''OAUTH_TOKEN'', dict_get d ''access_token''),
                       (''OAUTH_REFRESH'', dict_get d ''refresh_token''),
                       (''OAUTH_EXPIRES_AT'', PInt (ca + ei))]))\<rparr>)) \<and>
         (\<forall>e w'.
            post errs (client self) ''/oauth/token'' (refresh_data cid sec rt uri) w =
              Raises e w' \<and>
            is_instance e ''OAuthException'' \<longrightarrow>
            refresh_token errs self w = Returns () w')"
proof (intro conjI allI impI)
  fix d ca ei w'
  assume h: "post errs (client self) ''/oauth/token'' (refresh_data cid sec rt uri) w =
              Returns (PDict d) w' \<and>
            creds w' = creds w \<and>
            dict_get d ''created_at'' = PInt ca \<and> dict_get d ''expires_in'' = PInt ei \<and>
            - 62135596800 \<le> ca + ei \<and> ca + ei \<le> 253402300799"
  then have c: "map_of (creds w') ''CLIENT_ID'' = Some cid"
    "map_of (creds w') ''CLIENT_SECRET'' = Some sec"
    using assms by simp_all
  from h have "store_refreshed self (PDict d) w' =
           Returns ()
             (w'\<lparr>creds :=
                  AList.update ''OAUTH_TOKEN_VALID'' (PBool True)
                   (AList.update ''OAUTH_EXPIRES_AT'' (PInt (ca + ei))
                     (AList.update ''OAUTH_REFRESH'' (dict_get d ''refresh_token'')
                       (AList.update ''OAUTH_TOKEN'' (dict_get d ''access_token'') (creds w')))),
                files := (files w')(config_path self \<mapsto>
                  JsonText (PDict [(''CLIENT_ID'', cid), (''CLIENT_SECRET'', sec),
                    (''OAUTH_TOKEN'', dict_get d ''access_token''),
                    (''OAUTH_REFRESH'', dict_get d ''refresh_token''),
                    (''OAUTH_EXPIRES_AT'', PInt (ca + ei))]))\<rparr>)"
    using store_refreshed_ok [of d ca ei w' cid sec self] c by blast
  with h show "refresh_token errs self w =
              Returns ()
                (w'\<lparr>creds :=
                     AList.update ''OAUTH_TOKEN_VALID'' (PBool True)
                      (AList.update ''OAUTH_EXPIRES_AT'' (PInt (ca + ei))
                        (AList.update ''OAUTH_REFRESH'' (dict_get d ''refresh_token'')
                          (AList.update ''OAUTH_TOKEN'' (dict_get d ''access_token'')
                            (creds w)))),
                   files := (files w')(config_path self \<mapsto>
                     JsonText (PDict [(''CLIENT_ID'', cid), (''CLIENT_SECRET'', sec),
                       (''OAUTH_TOKEN'', dict_get d ''access_token''),
                       (''OAUTH_REFRESH'', dict_get d ''refresh_token''),
                       (''OAUTH_EXPIRES_AT'', PInt (ca + ei))]))\<rparr>)"
    by (simp add: refresh_token_unfold [OF assms])
next
  fix e w'
  assume "post errs (client self) ''/oauth/token'' (refresh_data cid sec rt uri) w =
              Raises e w' \<and> is_instance e ''OAuthException''"
  then show "refresh_token errs self w = Returns () w'"
    by (simp add: refresh_token_unfold [OF assms])
qed

lemma post_client0:
  "post errs0 client0 url data (world0 cr f (resp # rs) t) =
     (let w' = (world0 cr f rs t)
          \<lparr>outbox := [\<lparr>rq_method = ''post'', rq_url = ''https://api.trakt.tv'' @ url,
                 rq_headers = [(''Content-Type'', PStr ''application/json'')],
                 rq_params = None, rq_data = Some data\<rparr>]\<rparr>
      in if status_code resp = 204 then Returns PNone w'
         else case error_map errs0 (status_code resp) of
                Some err \<Rightarrow> Raises (TraktError err resp) w'
              | None \<Rightarrow> (case content resp of
                           None \<Rightarrow> Raises JSONDecodeError w'
                         | Some v \<Rightarrow> Returns v w'))"
  by (simp add: post_def Let_def request_on_response [OF session_call_client0]
      split: option.splits)

lemma self0_sel: "client self0 = client0" "config_path self0 = ''cfg.json''"
  by (simp_all add: self0_def)

theorem refresh_token_outcomes_witness:
  "returned (refresh_token errs0 self0
     (world0 (creds0 (PStr ''old'') (PStr ''ref'') (PInt 1000) PNone) None
        [reply 200 (Some token_payload)] 0)) = Some () \<and>
   creds (world_of (refresh_token errs0 self0
     (world0 (creds0 (PStr ''old'') (PStr ''ref'') (PInt 1000) PNone) None
        [reply 200 (Some token_payload)] 0))) =
     creds0 (PStr ''tok2'') (PStr ''ref2'') (PInt 1527105051) (PBool True) \<and>
   files (world_of (refresh_token errs0 self0
     (world0 (creds0 (PStr ''old'') (PStr ''ref'') (PInt 1000) PNone) None
        [reply 200 (Some token_payload)] 0))) ''cfg.json'' =
     Some (JsonText (PDict [(''CLIENT_ID'', PStr ''id''), (''CLIENT_SECRET'', PStr ''secret''),
              (''OAUTH_TOKEN'', PStr ''tok2''), (''OAUTH_REFRESH'', PStr ''ref2''),
              (''OAUTH_EXPIRES_AT'', PInt 1527105051)])) \<and>
   refresh_token errs0 self0
     (world0 (creds0 (PStr ''old'') (PStr ''ref'') (PInt 1000) PNone) None
        [reply 401 (Some (PDict []))] 0) =
   Returns ()
     ((world0 (creds0 (PStr ''old'') (PStr ''ref'') (PInt 1000) PNone) None [] 0)
        \<lparr>outbox := [refresh_request client0 (PStr ''id'') (PStr ''secret'') (PStr ''ref'')
                       (PStr ''urn:ietf:wg:oauth:2.0:oob'')]\<rparr>)"
proof -
  let ?cr = "creds0 (PStr ''old'') (PStr ''ref'') (PInt 1000) PNone"
  let ?rq = "refresh_request client0 (PStr ''id'') (PStr ''secret'') (PStr ''ref'')
               (PStr ''urn:ietf:wg:oauth:2.0:oob'')"
  let ?w = "\<lambda>rs. world0 ?cr None rs 0"
  let ?w' = "(world0 ?cr None [] 0)\<lparr>outbox := [?rq]\<rparr>"
  have k: "map_of (creds (?w rs)) ''CLIENT_ID'' = Some (PStr ''id'')"
    "map_of (creds (?w rs)) ''CLIENT_SECRET'' = Some (PStr ''secret'')"
    "map_of (creds (?w rs)) ''OAUTH_REFRESH'' = Some (PStr ''ref'')"
    "map_of (creds (?w rs)) ''REDIRECT_URI'' = Some (PStr ''urn:ietf:wg:oauth:2.0:oob'')" for rs
    by (simp_all add: world0_def creds0_def)
  let ?d = "[(''access_token'', PStr ''tok2''), (''token_type'', PStr ''bearer''),
            (''expires_in'', PInt 7776000), (''refresh_token'', PStr ''ref2''),
            (''scope'', PStr ''public''), (''created_at'', PInt 1519329051)]"
  have p1: "post errs0 (client self0) ''/oauth/token''
             (refresh_data (PStr ''id'') (PStr ''secret'') (PStr ''ref'')
                (PStr ''urn:ietf:wg:oauth:2.0:oob''))
             (?w [reply 200 (Some token_payload)]) = Returns (PDict ?d) ?w' \<and>
            creds ?w' = creds (?w [reply 200 (Some token_payload)]) \<and>
            dict_get ?d ''created_at'' = PInt 1519329051 \<and>
            dict_get ?d ''expires_in'' = PInt 7776000 \<and>
            - 62135596800 \<le> (1519329051 :: int) + 7776000 \<and>
            (1519329051 :: int) + 7776000 \<le> 253402300799"
    by (simp add: self0_sel post_client0 reply_sel error_map_errs0 Let_def)
       (simp add: refresh_request_def client0_def ci_updates_def token_payload_def
          dict_get_def world0_def)
  have p2: "post errs0 (client self0) ''/oauth/token''
             (refresh_data (PStr ''id'') (PStr ''secret'') (PStr ''ref'')
                (PStr ''urn:ietf:wg:oauth:2.0:oob''))
             (?w [reply 401 (Some (PDict []))]) =
            Raises (TraktError \<lparr>cls_name = ''OAuthException'', http_code = 401\<rparr>
                      (reply 401 (Some (PDict [])))) ?w' \<and>
            is_instance (TraktError \<lparr>cls_name = ''OAuthException'', http_code = 401\<rparr>
                      (reply 401 (Some (PDict [])))) ''OAuthException''"
    by (simp add: self0_sel post_client0 reply_sel error_map_errs0 Let_def)
       (simp add: refresh_request_def client0_def ci_updates_def)
  have 1: "refresh_token errs0 self0 (?w [reply 200 (Some token_payload)]) =
     Returns ()
      (?w'\<lparr>creds :=
           AList.update ''OAUTH_TOKEN_VALID'' (PBool True)
            (AList.update ''OAUTH_EXPIRES_AT'' (PInt (1519329051 + 7776000))
              (AList.update ''OAUTH_REFRESH'' (dict_get ?d ''refresh_token'')
                (AList.update ''OAUTH_TOKEN'' (dict_get ?d ''access_token'')
                  (creds (?w [reply 200 (Some token_payload)]))))),
          files := (files ?w')(config_path self0 \<mapsto>
            JsonText (PDict [(''CLIENT_ID'', PStr ''id''), (''CLIENT_SECRET'', PStr ''secret''),
              (''OAUTH_TOKEN'', dict_get ?d ''access_token''),
              (''OAUTH_REFRESH'', dict_get ?d ''refresh_token''),
              (''OAUTH_EXPIRES_AT'', PInt (1519329051 + 7776000))]))\<rparr>)"
    by (rule refresh_token_outcomes [OF k, THEN conjunct1, rule_format, OF p1])
  have 2: "refresh_token errs0 self0 (?w [reply 401 (Some (PDict []))]) = Returns () ?w'"
    by (rule refresh_token_outcomes [OF k, THEN conjunct2, rule_format, OF p2])
  show ?thesis
    unfolding 1 2 by (simp add: world0_def creds0_def self0_def dict_get_def returned_def)
qed

section \<open>Validity margin\<close>

lemma outbox_bind_tail:
  assumes "\<And>x w. outbox (world_of (f x w)) = outbox w"
  shows "outbox (world_of (bind_py m f w)) = outbox (world_of (m w))"
  using assms by (cases "m w") (simp_all add: bind_py_def)

lemma load_config_outbox:
  assumes "load_config self w = Returns () w1"
  shows "outbox w1 = outbox w"
proof -
  have "(world_of (load_config self w))\<lparr>creds := creds w\<rparr> = w" by (rule load_config_frame)
  then have "outbox ((world_of (load_config self w))\<lparr>creds := creds w\<rparr>) = outbox w" by simp
  then show ?thesis using assms by simp
qed

lemma validate_token_fresh:
  assumes "map_of (creds w) ''OAUTH_EXPIRES_AT'' = Some (PInt e)"
    and "- 62135596800 \<le> e" and "e \<le> 253402300799"
    and "two_days < e * 1000000 - clock w"
  shows "validate_token errs self w =
           Returns () (w\<lparr>creds := AList.update ''OAUTH_TOKEN_VALID'' (PBool True) (creds w)\<rparr>)"
  using assms
  by (simp add: validate_token_def bind_py_def now_def getitem_def lift_def fromtimestamp_def
      setitem_def)

lemma validate_token_stale:
  assumes "map_of (creds w) ''OAUTH_EXPIRES_AT'' = Some (PInt e)"
    and "- 62135596800 \<le> e" and "e \<le> 253402300799"
    and "\<not> two_days < e * 1000000 - clock w"
  shows "validate_token errs self w = refresh_token errs self w"
  using assms
  by (simp add: validate_token_def bind_py_def now_def getitem_def lift_def fromtimestamp_def)

lemma outbox_refresh_token_plain:
  assumes "auth (client self) = None"
    and "map_of (creds w) ''CLIENT_ID'' = Some cid"
    and "map_of (creds w) ''CLIENT_SECRET'' = Some sec"
    and "map_of (creds w) ''OAUTH_REFRESH'' = Some rt"
    and "map_of (creds w) ''REDIRECT_URI'' = Some uri"
  shows "outbox (world_of (refresh_token errs self w)) =
           outbox w @ [refresh_request (client self) cid sec rt uri]"
proof -
  let ?p = "post errs (client self) ''/oauth/token'' (refresh_data cid sec rt uri) w"
  have "world_of ?p = world_of (send (refresh_request (client self) cid sec rt uri) w)"
    by (simp add: post_def world_of_request session_call_plain [OF assms(1)]
        refresh_request_def)
  then have o: "outbox (world_of ?p) = outbox w @ [refresh_request (client self) cid sec rt uri]"
    by (simp add: outbox_send)
  show ?thesis
  proof (cases ?p)
    case (Returns resp w')
    then show ?thesis
      using o by (simp add: refresh_token_unfold [OF assms(2-5)] outbox_store_refreshed)
  next
    case (Raises e w')
    then show ?thesis
      using o by (simp add: refresh_token_unfold [OF assms(2-5)])
  qed
qed

text \<open>
  The refresh decision through a client without a hook. Take an authentication attempt
  that, after the load step, reaches the refresh decision: the token is not marked valid, the expiry is an integer time stamp (of a time
  a \<^verbatim>\<open>datetime\<close> can hold), the refresh token is set. If the expiry is more than two days
  after the clock, \<open>get_token\<close> marks the token valid and returns the client id and the
  token, and no request is sent. Otherwise it calls \<open>refresh_token\<close> once and then reads
  the two fields; through a client that carries no hook of its own, exactly one request
  is sent, the refresh request, whatever the provider answers.
\<close>

lemma validity_margin:
  assumes "load_config self w = Returns () w1"
    and "map_of (creds w1) ''OAUTH_TOKEN_VALID'' = Some v" and "\<not> truthy v"
    and "map_of (creds w1) ''OAUTH_EXPIRES_AT'' = Some (PInt e)"
    and "- 62135596800 \<le> e" and "e \<le> 253402300799"
    and "map_of (creds w1) ''OAUTH_REFRESH'' = Some rt" and "rt \<noteq> PNone"
    and "map_of (creds w1) ''CLIENT_ID'' = Some cid"
    and "map_of (creds w1) ''CLIENT_SECRET'' = Some sec"
    and "map_of (creds w1) ''REDIRECT_URI'' = Some uri"
    and "map_of (creds w1) ''OAUTH_TOKEN'' = Some tok"
  shows "(two_days < e * 1000000 - clock w1 \<longrightarrow>
            get_token errs self w =
              Returns (cid, tok)
                (w1\<lparr>creds := AList.update ''OAUTH_TOKEN_VALID'' (PBool True) (creds w1)\<rparr>) \<and>
            outbox (world_of (get_token errs self w)) = outbox w) \<and>
         (\<not> two_days < e * 1000000 - clock w1 \<longrightarrow>
            get_token errs self w =
              bind_py (refresh_token errs self) (\<lambda>_.
              bind_py (getitem ''CLIENT_ID'') (\<lambda>a.
              bind_py (getitem ''OAUTH_TOKEN'') (\<lambda>b. ret (a, b)))) w1 \<and>
            (auth (client self) = None \<longrightarrow>
               outbox (world_of (get_token errs self w)) =
                 outbox w @ [refresh_request (client self) cid sec rt uri]))"
proof -
  have nv: "needs_validation w1 = Returns True w1"
    using needs_validation_True [OF assms(2,3,4) _ assms(7,8)] by simp
  have g: "get_token errs self w =
             bind_py (validate_token errs self) (\<lambda>_.
             bind_py (getitem ''CLIENT_ID'') (\<lambda>a.
             bind_py (getitem ''OAUTH_TOKEN'') (\<lambda>b. ret (a, b)))) w1"
    using assms(1) nv by (simp add: get_token_def bind_py_def)
  have ob: "outbox w1 = outbox w" using assms(1) by (rule load_config_outbox)
  show ?thesis
  proof (intro conjI impI)
    assume f: "two_days < e * 1000000 - clock w1"
    show r: "get_token errs self w =
              Returns (cid, tok)
                (w1\<lparr>creds := AList.update ''OAUTH_TOKEN_VALID'' (PBool True) (creds w1)\<rparr>)"
      using assms(9,12)
      by (simp add: g bind_py_def validate_token_fresh [OF assms(4,5,6) f] getitem_def ret_def
          update_conv')
    show "outbox (world_of (get_token errs self w)) = outbox w"
      by (simp add: r ob)
  next
    assume s: "\<not> two_days < e * 1000000 - clock w1"
    show r: "get_token errs self w =
              bind_py (refresh_token errs self) (\<lambda>_.
              bind_py (getitem ''CLIENT_ID'') (\<lambda>a.
              bind_py (getitem ''OAUTH_TOKEN'') (\<lambda>b. ret (a, b)))) w1"
      by (simp add: g bind_py_def validate_token_stale [OF assms(4,5,6) s])
    assume a: "auth (client self) = None"
    have "outbox (world_of (get_token errs self w)) =
            outbox (world_of (refresh_token errs self w1))"
      unfolding r
      by (intro outbox_bind_tail keeps_outbox_bind keeps_outbox_atoms)
    then show "outbox (world_of (get_token errs self w)) =
                 outbox w @ [refresh_request (client self) cid sec rt uri]"
      by (simp add: outbox_refresh_token_plain [OF a assms(9,10,7,11)] ob)
  qed
qed

lemma validity_margin_witness:
  "get_token errs0 self0
     (world0 (creds0 (PStr ''tok'') (PStr ''ref'') (PInt 1700259200) PNone) None []
        1700000000000000) =
   Returns (PStr ''id'', PStr ''tok'')
     (world0 (creds0 (PStr ''tok'') (PStr ''ref'') (PInt 1700259200) (PBool True)) None []
        1700000000000000) \<and>
   outbox (world_of (get_token errs0 self0
     (world0 (creds0 (PStr ''tok'') (PStr ''ref'') (PInt 1700259200) PNone) None []
        1700000000000000))) = [] \<and>
   outbox (world_of (get_token errs0 self0
     (world0 (creds0 (PStr ''tok'') (PStr ''ref'') (PInt 1700003600) PNone) None
        [reply 200 (Some token_payload)] 1700000000000000))) =
     [refresh_request client0 (PStr ''id'') (PStr ''secret'') (PStr ''ref'')
        (PStr ''urn:ietf:wg:oauth:2.0:oob'')]"
proof -
  let ?a = "world0 (creds0 (PStr ''tok'') (PStr ''ref'') (PInt 1700259200) PNone) None []
              1700000000000000"
  let ?b = "world0 (creds0 (PStr ''tok'') (PStr ''ref'') (PInt 1700003600) PNone) None
              [reply 200 (Some token_payload)] 1700000000000000"
  have la: "load_config self0 ?a = Returns () ?a"
    by (rule load_config_noop [of _ "PStr ''id''" "PStr ''secret''"])
       (simp_all add: world0_def creds0_def)
  have lb: "load_config self0 ?b = Returns () ?b"
    by (rule load_config_noop [of _ "PStr ''id''" "PStr ''secret''"])
       (simp_all add: world0_def creds0_def)
  have ta: "(two_days < 1700259200 * 1000000 - clock ?a \<longrightarrow>
            get_token errs0 self0 ?a =
              Returns (PStr ''id'', PStr ''tok'')
                (?a\<lparr>creds := AList.update ''OAUTH_TOKEN_VALID'' (PBool True) (creds ?a)\<rparr>) \<and>
            outbox (world_of (get_token errs0 self0 ?a)) = outbox ?a) \<and>
         (\<not> two_days < 1700259200 * 1000000 - clock ?a \<longrightarrow>
            get_token errs0 self0 ?a =
              bind_py (refresh_token errs0 self0) (\<lambda>_.
              bind_py (getitem ''CLIENT_ID'') (\<lambda>a.
              bind_py (getitem ''OAUTH_TOKEN'') (\<lambda>b. ret (a, b)))) ?a \<and>
            (auth (client self0) = None \<longrightarrow>
               outbox (world_of (get_token errs0 self0 ?a)) =
                 outbox ?a @ [refresh_request (client self0) (PStr ''id'') (PStr ''secret'')
                   (PStr ''ref'') (PStr ''urn:ietf:wg:oauth:2.0:oob'')]))"
    by (rule validity_margin [OF la, of PNone]) (simp_all add: world0_def creds0_def)
  have tb: "(two_days < 1700003600 * 1000000 - clock ?b \<longrightarrow>
            get_token errs0 self0 ?b =
              Returns (PStr ''id'', PStr ''tok'')
                (?b\<lparr>creds := AList.update ''OAUTH_TOKEN_VALID'' (PBool True) (creds ?b)\<rparr>) \<and>
            outbox (world_of (get_token errs0 self0 ?b)) = outbox ?b) \<and>
         (\<not> two_days < 1700003600 * 1000000 - clock ?b \<longrightarrow>
            get_token errs0 self0 ?b =
              bind_py (refresh_token errs0 self0) (\<lambda>_.
              bind_py (getitem ''CLIENT_ID'') (\<lambda>a.
              bind_py (getitem ''OAUTH_TOKEN'') (\<lambda>b. ret (a, b)))) ?b \<and>
            (auth (client self0) = None \<longrightarrow>
               outbox (world_of (get_token errs0 self0 ?b)) =
                 outbox ?b @ [refresh_request (client self0) (PStr ''id'') (PStr ''secret'')
                   (PStr ''ref'') (PStr ''urn:ietf:wg:oauth:2.0:oob'')]))"
    by (rule validity_margin [OF lb, of PNone]) (simp_all add: world0_def creds0_def)
  have ca: "two_days < 1700259200 * 1000000 - clock ?a"
    by (simp add: two_days_def world0_def)
  have cb: "\<not> two_days < 1700003600 * 1000000 - clock ?b"
    by (simp add: two_days_def world0_def)
  have n: "auth (client self0) = None" by (simp add: self0_sel client0_def)
  from ta ca have 1: "get_token errs0 self0 ?a =
              Returns (PStr ''id'', PStr ''tok'')
                (?a\<lparr>creds := AList.update ''OAUTH_TOKEN_VALID'' (PBool True) (creds ?a)\<rparr>)"
    and 2: "outbox (world_of (get_token errs0 self0 ?a)) = outbox ?a"
    by blast+
  from tb cb n have 3: "outbox (world_of (get_token errs0 self0 ?b)) =
                 outbox ?b @ [refresh_request (client self0) (PStr ''id'') (PStr ''secret'')
                   (PStr ''ref'') (PStr ''urn:ietf:wg:oauth:2.0:oob'')]"
    by blast
  show ?thesis
    unfolding 1 2 3 by (simp add: world0_def creds0_def self0_sel)
qed

section \<open>A client that is its own authenticator's client\<close>

lemma get_token_validate_raises:
  assumes "load_config self w = Returns () w1"
    and "needs_validation w1 = Returns True w1"
    and "validate_token errs self w1 = Raises e w2"
  shows "get_token errs self w = Raises e w2"
  using assms by (simp add: get_token_def bind_py_def)

text \<open>
  Through such a client a refresh that is due is never sent: the refresh request is signed
  by the hook, which finds the refresh still due and asks for it again, until the
  recursion limit ends the call.
\<close>

lemma reentrant_refresh_never_sends:
  assumes "map_of (creds w) ''CLIENT_ID'' = Some cid" and "cid \<noteq> PNone"
    and "map_of (creds w) ''CLIENT_SECRET'' = Some sec" and "sec \<noteq> PNone"
    and "map_of (creds w) ''OAUTH_TOKEN_VALID'' = Some v" and "\<not> truthy v"
    and "map_of (creds w) ''OAUTH_EXPIRES_AT'' = Some (PInt e)"
    and "- 62135596800 \<le> e" and "e \<le> 253402300799"
    and "\<not> two_days < e * 1000000 - clock w"
    and "map_of (creds w) ''OAUTH_REFRESH'' = Some rt" and "rt \<noteq> PNone"
    and "map_of (creds w) ''REDIRECT_URI'' = Some uri"
  shows "request errs (attached d errs c path) verb target body w = Raises RecursionError w"
proof (induction d arbitrary: verb target body)
  case 0
  have "session_call (attached 0 errs c path) verb target body w = Raises RecursionError w"
    by (simp add: session_call_hooked [of _ "\<lambda>r. raise RecursionError"] bind_py_def raise_def)
  then show ?case by (rule request_on_failure)
next
  case (Suc d)
  let ?self = "\<lparr>client = attached d errs c path, config_path = path\<rparr>"
  have l: "load_config ?self w = Returns () w"
    using assms(1-4) by (simp add: load_config_noop)
  have n: "needs_validation w = Returns True w"
    using needs_validation_True [OF assms(5,6,7) _ assms(11,12)] by simp
  have "post errs (client ?self) ''/oauth/token'' (refresh_data cid sec rt uri) w =
          Raises RecursionError w"
    using Suc.IH [of "''post''" "''/oauth/token''" "refresh_data cid sec rt uri"]
    by (simp add: post_def)
  then have "refresh_token errs ?self w = Raises RecursionError w"
    by (simp add: refresh_token_unfold [OF assms(1,3,11,13)])
  then have "validate_token errs ?self w = Raises RecursionError w"
    by (simp add: validate_token_stale [OF assms(7,8,9,10)])
  with l n have "get_token errs ?self w = Raises RecursionError w"
    by (rule get_token_validate_raises)
  then have "token_auth_call errs ?self r w = Raises RecursionError w" for r
    by (rule token_auth_call_Raises)
  then have "session_call (attached (Suc d) errs c path) verb target body w =
               Raises RecursionError w"
    by (simp add: session_call_hooked [of _ "token_auth_call errs ?self"] bind_py_def)
  then show ?case by (rule request_on_failure)
qed

lemma reentrant_get_token:
  assumes "map_of (creds w) ''CLIENT_ID'' = Some cid" and "cid \<noteq> PNone"
    and "map_of (creds w) ''CLIENT_SECRET'' = Some sec" and "sec \<noteq> PNone"
    and "map_of (creds w) ''OAUTH_TOKEN_VALID'' = Some v" and "\<not> truthy v"
    and "map_of (creds w) ''OAUTH_EXPIRES_AT'' = Some (PInt e)"
    and "- 62135596800 \<le> e" and "e \<le> 253402300799"
    and "\<not> two_days < e * 1000000 - clock w"
    and "map_of (creds w) ''OAUTH_REFRESH'' = Some rt" and "rt \<noteq> PNone"
    and "map_of (creds w) ''REDIRECT_URI'' = Some uri"
  shows "get_token errs \<lparr>client = attached d errs c path, config_path = path\<rparr> w =
           Raises RecursionError w"
proof -
  let ?self = "\<lparr>client = attached d errs c path, config_path = path\<rparr>"
  have l: "load_config ?self w = Returns () w"
    using assms(1-4) by (simp add: load_config_noop)
  have n: "needs_validation w = Returns True w"
    using needs_validation_True [OF assms(5,6,7) _ assms(11,12)] by simp
  have "post errs (client ?self) ''/oauth/token'' (refresh_data cid sec rt uri) w =
          Raises RecursionError w"
    using reentrant_refresh_never_sends [OF assms, of errs d c path "''post''" "''/oauth/token''"
        "refresh_data cid sec rt uri"]
    by (simp add: post_def)
  then have "refresh_token errs ?self w = Raises RecursionError w"
    by (simp add: refresh_token_unfold [OF assms(1,3,11,13)])
  then have "validate_token errs ?self w = Raises RecursionError w"
    by (simp add: validate_token_stale [OF assms(7,8,9,10)])
  with l n show ?thesis by (rule get_token_validate_raises)
qed

text \<open>
  Claim C3 says that an authentication attempt whose token expires within two days
  performs exactly one refresh call. The spec's control flow has the authenticator
  attached to the transport it refreshes through, and for that client the code does not do
  so. With the expiry one hour after the clock, \<open>get_token\<close> raises
  \<^verbatim>\<open>RecursionError\<close> and leaves the world as it was, so that no request has been sent,
  at whatever depth the recursion limit is reached; a request made through the client
  raises the same exception and is not sent either.
\<close>

theorem attached_refresh_is_never_sent:
  "get_token errs0 (attached_self d) stale_world = Raises RecursionError stale_world \<and>
   request errs0 (attached (Suc d) errs0 client0 ''cfg.json'') ''get'' ''/users/me'' PNone
     stale_world = Raises RecursionError stale_world \<and>
   outbox stale_world = [] \<and>
   clock stale_world = 1700000000 * 1000000 \<and>
   map_of (creds stale_world) ''OAUTH_EXPIRES_AT'' = Some (PInt (1700000000 + 3600))"
proof -
  have k: "map_of (creds stale_world) ''CLIENT_ID'' = Some (PStr ''id'')" "PStr ''id'' \<noteq> PNone"
    "map_of (creds stale_world) ''CLIENT_SECRET'' = Some (PStr ''secret'')"
    "PStr ''secret'' \<noteq> PNone"
    "map_of (creds stale_world) ''OAUTH_TOKEN_VALID'' = Some PNone" "\<not> truthy PNone"
    "map_of (creds stale_world) ''OAUTH_EXPIRES_AT'' = Some (PInt 1700003600)"
    "- 62135596800 \<le> (1700003600 :: int)" "(1700003600 :: int) \<le> 253402300799"
    "\<not> two_days < 1700003600 * 1000000 - clock stale_world"
    "map_of (creds stale_world) ''OAUTH_REFRESH'' = Some (PStr ''ref'')" "PStr ''ref'' \<noteq> PNone"
    "map_of (creds stale_world) ''REDIRECT_URI'' = Some (PStr ''urn:ietf:wg:oauth:2.0:oob'')"
    by (simp_all add: stale_world_def world0_def creds0_def two_days_def)
  have 1: "get_token errs0 (attached_self d) stale_world = Raises RecursionError stale_world"
    unfolding attached_self_def by (rule reentrant_get_token [OF k])
  have 2: "request errs0 (attached (Suc d) errs0 client0 ''cfg.json'') ''get'' ''/users/me'' PNone
     stale_world = Raises RecursionError stale_world"
    by (rule reentrant_refresh_never_sends [OF k])
  have 3: "outbox stale_world = []" "clock stale_world = 1700000000 * 1000000"
    "map_of (creds stale_world) ''OAUTH_EXPIRES_AT'' = Some (PInt (1700000000 + 3600))"
    by (simp_all add: stale_world_def world0_def creds0_def)
  from 1 2 3 show ?thesis by simp
qed

section \<open>Device authorization\<close>

text \<open>
  \<open>get_device_token\<close> reads \<^verbatim>\<open>response.status_code\<close> of what \<^verbatim>\<open>HttpClient.post\<close>
  returned. That is decoded JSON, which has no such attribute, and for a status of the
  failure table \<^verbatim>\<open>post\<close> has raised already: the function never returns, and so the
  loop of \<open>authenticate\<close> never completes a turn.
\<close>

lemma get_device_token_raises:
  "\<exists>e w'. get_device_token errs self device_code flag w = Raises e w'"
  by (simp add: get_device_token_def bind_py_def config_attr_def lift_def py_getattr_def
      split: outcome.splits)

lemma poll_step_raises: "\<exists>e w'. poll_step errs self device_code interval w = Raises e w'"
  using get_device_token_raises [of errs self device_code "store self" w]
  by (auto simp add: poll_step_def bind_py_def)

lemma poll_raises: "\<exists>e w'. poll (Suc n) errs self device_code interval w = Some (Raises e w')"
  using poll_step_raises [of errs self device_code interval w] by auto

lemma authenticate_always_raises:
  "\<exists>e w'. authenticate (Suc n) errs self client_info w = Some (Raises e w')"
proof (cases "bind_py (update_tokens client_info) (\<lambda>_.
           bind_py (get_device_code errs self) (\<lambda>resp.
           bind_py (lift (py_getitem resp ''device_code'')) (\<lambda>device_code.
           bind_py (lift (py_getitem resp ''interval'')) (\<lambda>interval.
             ret (device_code, interval))))) w")
  case (Returns p w')
  obtain device_code interval where "p = (device_code, interval)" by (cases p)
  with Returns show ?thesis
    using poll_raises [of n errs self device_code interval w']
    by (simp add: authenticate_def)
next
  case (Raises e w')
  then show ?thesis by (simp add: authenticate_def)
qed

text \<open>
  Claim C1 says that in the poll loop a 200 response ends the loop with success after the
  credentials are updated, and that a 400 response lets the loop go on without raising.
  The code does neither. With the device code granted, a first poll answered by 200 and
  the token payload raises \<^verbatim>\<open>AttributeError\<close> out of \<open>authenticate\<close>, with no token in
  the config and no file written; a first poll answered by 400 raises the exception the
  table has for 400. In both cases no turn of the loop is completed and nothing sleeps.
\<close>

theorem authenticate_raises_at_first_poll:
  "authenticate (Suc n) errs0 dev0 (PStr ''id'', PStr ''secret'')
     (world0 [] None [reply 200 (Some code_payload), reply 200 (Some token_payload)] 0) =
   Some (Raises AttributeError world_after_first_poll) \<and>
   authenticate (Suc n) errs0 dev0 (PStr ''id'', PStr ''secret'')
     (world0 [] None [reply 200 (Some code_payload), reply 400 (Some (PDict []))] 0) =
   Some (Raises (TraktError \<lparr>cls_name = ''BadRequestException'', http_code = 400\<rparr>
                   (reply 400 (Some (PDict [])))) world_after_first_poll)"
  by (simp add: authenticate_def poll_step_def get_device_token_def get_device_code_def
      update_tokens_def config_attr_def config_setattr_def print_def bind_py_def ret_def
      lift_def py_getattr_def post_def request_def session_call_def session_request_def
      send_def raise_if_needed_def raise_def json_loads_def error_map_def errs0_def dev0_def
      client0_def world0_def reply_def code_payload_def token_payload_def dict_get_def
      py_str_def ci_updates_def Let_def world_after_first_poll_def device_requests_def)

end
